theory Spec2Isabelle
  imports Main "HOL-Library.Char_ord" "HOL-Library.List_Lexorder" "HOL-Library.Product_Lexorder"
begin

section \<open>Rows and tables (types.ts and the schema of database.ts)\<close>

text \<open>
  The three tables of the SQLite schema. Every timestamp column is declared \<open>TEXT\<close> and
  every timestamp that the code binds is a JavaScript string, so the model keeps them as
  strings. SQLite compares \<open>TEXT\<close> values bytewise (collation BINARY): that is the order
  \<open><\<close> on \<open>string\<close> given by \<open>Char_ord\<close> and \<open>List_Lexorder\<close>.

  A field name that two records share, or that is a constant of HOL, carries a prefix or a
  suffix: \<open>sp_id\<close> and \<open>res_id\<close> are the columns \<open>id\<close>, \<open>floor_no\<close> is \<open>floor\<close>,
  \<open>key_created_at\<close> is \<open>created_at\<close> of \<open>idempotency_keys\<close>; the fields of the API types
  start with \<open>av_\<close> and \<open>resp_\<close>.
\<close>

record CarParkSpot =
  sp_id :: int
  spot_number :: string
  floor_no :: int
  is_available :: int

record Reservation =
  res_id :: int
  spot_id :: int
  customer_name :: string
  customer_email :: string
  start_time :: string
  end_time :: string
  created_at :: string

record IdempotencyRecord =
  key :: string
  response_status :: int
  response_body :: string
  key_created_at :: string

text \<open>
  The in-memory SQL database \<open>db\<close>. The columns \<open>car_park_spots.id\<close> and
  \<open>reservations.id\<close> are \<open>INTEGER PRIMARY KEY AUTOINCREMENT\<close>: SQLite keeps the largest
  id ever handed out for each table in \<open>sqlite_sequence\<close>, here the two \<open>_seq\<close> fields.
\<close>

record tables =
  car_park_spots :: "CarParkSpot list"
  car_park_spots_seq :: int
  reservations :: "Reservation list"
  reservations_seq :: int
  idempotency_keys :: "IdempotencyRecord list"

text \<open>
  The process state: the in-memory database and the image of it last written to the file
  \<open>carpark.db\<close> by \<open>saveDatabase\<close> (\<open>None\<close> while there is no file).
\<close>

record world =
  db :: tables
  disk :: "tables option"

text \<open>
  What the JavaScript code can throw. \<open>ReservationError\<close> carries its message and its
  \<open>statusCode\<close>; the others are the runtime's and the libraries' exceptions.
\<close>

datatype error =
    ReservationError string int
  | SqliteError string
  | FsError
  | RangeError
  | TypeError
  | SyntaxError

section \<open>The JavaScript runtime\<close>

text \<open>
  JSON values, as handed to \<open>res.json\<close> and returned by \<open>JSON.parse\<close>.
\<close>

datatype json =
    JNull
  | JBool bool
  | JNum int
  | JStr string
  | JArr "json list"
  | JObj "(string \<times> json) list"

text \<open>
  The built-ins the code calls are parameters of the model:
  \<^item> \<open>Date_parse s\<close> is the time value of \<open>new Date(s)\<close> in milliseconds since the epoch,
    \<open>None\<close> for an invalid Date (time value NaN);
  \<^item> \<open>Date_toISOString t\<close> is \<open>new Date(t).toISOString()\<close> for a time value in range;
  \<^item> \<open>JSON_stringify\<close> and \<open>JSON_parse\<close> (\<open>None\<close> when it throws a SyntaxError).
\<close>

record runtime =
  Date_parse :: "string \<Rightarrow> int option"
  Date_toISOString :: "int \<Rightarrow> string"
  JSON_stringify :: "json \<Rightarrow> string"
  JSON_parse :: "string \<Rightarrow> json option"

text \<open>
  The clock and the disk are inputs of each operation: \<open>now\<close> is the time value that
  \<open>new Date()\<close> and \<open>Date.now()\<close> give during the call (one reading per call), \<open>io\<close> says
  whether \<open>fs.writeFileSync\<close> succeeds. Numbers that the code handles as integers (ids,
  floors, status codes, hours) are of type \<open>int\<close>.

  Relational comparison of two Date objects compares their time values as numbers; every
  comparison with NaN is false.
\<close>

definition date_ge :: "int option \<Rightarrow> int option \<Rightarrow> bool" where
  "date_ge a b = (case a of None \<Rightarrow> False | Some x \<Rightarrow> (case b of None \<Rightarrow> False | Some y \<Rightarrow> x \<ge> y))"

definition date_lt :: "int option \<Rightarrow> int option \<Rightarrow> bool" where
  "date_lt a b = (case a of None \<Rightarrow> False | Some x \<Rightarrow> (case b of None \<Rightarrow> False | Some y \<Rightarrow> x < y))"

text \<open>Truthiness of a value of type \<open>string | undefined\<close>: \<open>undefined\<close> and \<open>""\<close> are falsy.\<close>

definition truthy :: "string option \<Rightarrow> bool" where
  "truthy s = (case s of None \<Rightarrow> False | Some t \<Rightarrow> t \<noteq> [])"

section \<open>database.ts\<close>

text \<open>
  \<open>saveDatabase\<close> exports the in-memory database and writes it to the file with
  \<open>fs.writeFileSync\<close>. The flag \<open>io\<close> says whether that write succeeds; when it does not,
  the exception propagates and the file keeps its last image.
\<close>

definition saveDatabase :: "bool \<Rightarrow> world \<Rightarrow> (error + unit) \<times> world" where
  "saveDatabase io w = (if io then (Inr (), w\<lparr>disk := Some (db w)\<rparr>) else (Inl FsError, w))"

text \<open>Decimal digits of a number, as a template literal prints it.\<close>

definition dig :: "nat \<Rightarrow> char" where
  "dig n = ''0123456789'' ! n"

function decimal :: "nat \<Rightarrow> string" where
  "decimal n = (if n < 10 then [dig n] else decimal (n div 10) @ [dig (n mod 10)])"
  by pat_completeness auto
termination
  by (relation "measure (\<lambda>n. n)") auto

declare decimal.simps [simp del]

text \<open>
  \<open>initializeDatabase\<close>: the database is loaded from the file when there is one and is
  empty otherwise; the \<open>CREATE ... IF NOT EXISTS\<close> statements leave existing tables alone;
  when \<open>car_park_spots\<close> has no row, the loop inserts \<open>A1, B1, ..., A10, B10\<close> on floors 1
  and 2, \<open>is_available\<close> taking its default 1.
\<close>

definition insert_spot :: "string \<Rightarrow> int \<Rightarrow> tables \<Rightarrow> tables" where
  "insert_spot nm fl t =
     (let i = foldr max (map sp_id (car_park_spots t)) (car_park_spots_seq t) + 1
      in t\<lparr>car_park_spots := car_park_spots t @
               [\<lparr>sp_id = i, spot_number = nm, floor_no = fl, is_available = 1\<rparr>],
            car_park_spots_seq := i\<rparr>)"

definition initializeDatabase :: "bool \<Rightarrow> tables option \<Rightarrow> (error + unit) \<times> world" where
  "initializeDatabase io existing =
     (let t0 = (case existing of
                  Some t \<Rightarrow> t
                | None \<Rightarrow> \<lparr>car_park_spots = [], car_park_spots_seq = 0, reservations = [],
                           reservations_seq = 0, idempotency_keys = []\<rparr>);
          t1 = (if length (car_park_spots t0) = 0
                then fold (\<lambda>i t. insert_spot (''B'' @ decimal i) 2 (insert_spot (''A'' @ decimal i) 1 t))
                       [1 ..< 11] t0
                else t0)
      in saveDatabase io \<lparr>db = t1, disk = existing\<rparr>)"

definition getIdempotencyRecord :: "string \<Rightarrow> tables \<Rightarrow> IdempotencyRecord option" where
  "getIdempotencyRecord k t = find (\<lambda>r. key r = k) (idempotency_keys t)"

text \<open>
  \<open>key TEXT PRIMARY KEY\<close>: the INSERT of a key that is already in the table fails with a
  constraint error thrown by \<open>db.run\<close>, before \<open>saveDatabase\<close> is reached.
\<close>

definition saveIdempotencyRecord ::
  "runtime \<Rightarrow> int \<Rightarrow> bool \<Rightarrow> string \<Rightarrow> int \<Rightarrow> string \<Rightarrow> world \<Rightarrow> (error + unit) \<times> world" where
  "saveIdempotencyRecord js now io k status body w =
     (if \<exists>r \<in> set (idempotency_keys (db w)). key r = k
      then (Inl (SqliteError ''UNIQUE constraint failed: idempotency_keys.key''), w)
      else saveDatabase io
             (w\<lparr>db := (db w)\<lparr>idempotency_keys := idempotency_keys (db w) @
                  [\<lparr>key = k, response_status = status, response_body = body,
                    key_created_at = Date_toISOString js now\<rparr>]\<rparr>\<rparr>))"

text \<open>
  A Date holds a time value of at most 8.64e15 milliseconds in absolute value; beyond that
  \<open>new Date(v)\<close> is invalid and \<open>toISOString\<close> throws a RangeError.
\<close>

definition cleanupExpiredIdempotencyKeys ::
  "runtime \<Rightarrow> int \<Rightarrow> bool \<Rightarrow> int \<Rightarrow> world \<Rightarrow> (error + nat) \<times> world" where
  "cleanupExpiredIdempotencyKeys js now io hoursOld w =
     (let v = now - hoursOld * 60 * 60 * 1000 in
      if \<bar>v\<bar> > 8640000000000000 then (Inl RangeError, w)
      else
        let cutoff = Date_toISOString js v;
            changes = length (filter (\<lambda>r. key_created_at r < cutoff) (idempotency_keys (db w)));
            w' = w\<lparr>db := (db w)\<lparr>idempotency_keys :=
                     filter (\<lambda>r. \<not> key_created_at r < cutoff) (idempotency_keys (db w))\<rparr>\<rparr>
        in if changes > 0
           then (case saveDatabase io w' of
                   (Inl e, w'') \<Rightarrow> (Inl e, w'')
                 | (Inr _, w'') \<Rightarrow> (Inr changes, w''))
           else (Inr changes, w'))"

text \<open>
  \<open>getAvailableSpots\<close> builds its SQL from the arguments: the floor condition when the
  floor is not \<open>undefined\<close>, the \<open>NOT IN\<close> subquery when both timestamps are truthy, and
  \<open>ORDER BY floor, spot_number\<close>.
\<close>

definition getAvailableSpots ::
  "int option \<Rightarrow> string option \<Rightarrow> string option \<Rightarrow> tables \<Rightarrow> CarParkSpot list" where
  "getAvailableSpots floor startTime endTime t =
     sort_key (\<lambda>s. (floor_no s, spot_number s))
       (filter (\<lambda>s. is_available s = 1
                 \<and> (case floor of None \<Rightarrow> True | Some f \<Rightarrow> floor_no s = f)
                 \<and> (if truthy startTime \<and> truthy endTime
                    then sp_id s \<notin> set (map spot_id
                           (filter (\<lambda>r. start_time r < the endTime \<and> end_time r > the startTime)
                              (reservations t)))
                    else True))
          (car_park_spots t))"

definition getSpotById :: "int \<Rightarrow> tables \<Rightarrow> CarParkSpot option" where
  "getSpotById i t = find (\<lambda>s. sp_id s = i) (car_park_spots t)"

text \<open>
  The id of a new row of an AUTOINCREMENT table is one more than the largest id that was
  ever in the table: the larger of the sequence counter and of the ids present.
\<close>

definition fresh_id :: "tables \<Rightarrow> int" where
  "fresh_id t = foldr max (map res_id (reservations t)) (reservations_seq t) + 1"

definition getReservationById :: "int \<Rightarrow> tables \<Rightarrow> Reservation option" where
  "getReservationById i t = find (\<lambda>r. res_id r = i) (reservations t)"

text \<open>
  \<open>createReservation\<close>: the INSERT, then \<open>saveDatabase\<close>, then the row is read back by
  \<open>lastInsertRowid\<close>. The result of \<open>queryOne\<close> is asserted non-null with \<open>!\<close>; were it
  \<open>undefined\<close>, the caller's first property access would throw a TypeError.
\<close>

definition createReservation ::
  "runtime \<Rightarrow> int \<Rightarrow> bool \<Rightarrow> int \<Rightarrow> string \<Rightarrow> string \<Rightarrow> string \<Rightarrow> string \<Rightarrow> world
     \<Rightarrow> (error + Reservation) \<times> world" where
  "createReservation js now io spotId customerName customerEmail startTime endTime w =
     (let lastInsertRowid = fresh_id (db w);
          row = \<lparr>res_id = lastInsertRowid, spot_id = spotId, customer_name = customerName,
                 customer_email = customerEmail, start_time = startTime, end_time = endTime,
                 created_at = Date_toISOString js now\<rparr>;
          w' = w\<lparr>db := (db w)\<lparr>reservations := reservations (db w) @ [row],
                                reservations_seq := lastInsertRowid\<rparr>\<rparr>
      in case saveDatabase io w' of
           (Inl e, w'') \<Rightarrow> (Inl e, w'')
         | (Inr _, w'') \<Rightarrow>
             (case getReservationById lastInsertRowid (db w'') of
                None \<Rightarrow> (Inl TypeError, w'')
              | Some r \<Rightarrow> (Inr r, w'')))"

definition deleteReservation :: "bool \<Rightarrow> int \<Rightarrow> world \<Rightarrow> (error + bool) \<times> world" where
  "deleteReservation io i w =
     (let changes = length (filter (\<lambda>r. res_id r = i) (reservations (db w)));
          w' = w\<lparr>db := (db w)\<lparr>reservations := filter (\<lambda>r. res_id r \<noteq> i) (reservations (db w))\<rparr>\<rparr>
      in if changes > 0
         then (case saveDatabase io w' of
                 (Inl e, w'') \<Rightarrow> (Inl e, w'')
               | (Inr _, w'') \<Rightarrow> (Inr (changes > 0), w''))
         else (Inr (changes > 0), w'))"

definition hasOverlappingReservation :: "int \<Rightarrow> string \<Rightarrow> string \<Rightarrow> tables \<Rightarrow> bool" where
  "hasOverlappingReservation spotId startTime endTime t =
     (length (filter (\<lambda>r. spot_id r = spotId \<and> start_time r < endTime \<and> end_time r > startTime)
                (reservations t)) > 0)"

section \<open>services/reservation.ts\<close>

record AvailableSpot =
  av_id :: int
  av_spotNumber :: string
  av_floor :: int

definition queryAvailability ::
  "int option \<Rightarrow> string option \<Rightarrow> string option \<Rightarrow> tables \<Rightarrow> AvailableSpot list" where
  "queryAvailability floor startTime endTime t =
     map (\<lambda>spot. \<lparr>av_id = sp_id spot, av_spotNumber = spot_number spot, av_floor = floor_no spot\<rparr>)
       (getAvailableSpots floor startTime endTime t)"

record ReservationRequest =
  spotId :: int
  customerName :: string
  customerEmail :: string
  startTime :: string
  endTime :: string

record ReservationResponse =
  resp_id :: int
  resp_spotId :: int
  resp_spotNumber :: string
  resp_customerName :: string
  resp_customerEmail :: string
  resp_startTime :: string
  resp_endTime :: string
  resp_createdAt :: string

text \<open>
  \<open>makeReservation\<close>. The two range checks compare Date objects parsed from the strings;
  the overlap check and the INSERT receive the strings themselves. \<open>!spot.is_available\<close>
  holds for the number 0.
\<close>

definition makeReservation ::
  "runtime \<Rightarrow> int \<Rightarrow> bool \<Rightarrow> ReservationRequest \<Rightarrow> world
     \<Rightarrow> (error + ReservationResponse) \<times> world" where
  "makeReservation js now io request w =
     (case getSpotById (spotId request) (db w) of
        None \<Rightarrow> (Inl (ReservationError ''Parking spot not found'' 404), w)
      | Some spot \<Rightarrow>
          if is_available spot = 0
          then (Inl (ReservationError ''Parking spot is not available for reservations'' 400), w)
          else
            let start = Date_parse js (startTime request);
                end = Date_parse js (endTime request)
            in if date_ge start end
               then (Inl (ReservationError ''End time must be after start time'' 400), w)
               else if date_lt start (Some now)
               then (Inl (ReservationError ''Start time cannot be in the past'' 400), w)
               else if hasOverlappingReservation (spotId request) (startTime request)
                         (endTime request) (db w)
               then (Inl (ReservationError
                       ''This spot is already reserved for the requested time period'' 409), w)
               else
                 (case createReservation js now io (spotId request) (customerName request)
                         (customerEmail request) (startTime request) (endTime request) w of
                    (Inl e, w') \<Rightarrow> (Inl e, w')
                  | (Inr reservation, w') \<Rightarrow>
                      (Inr \<lparr>resp_id = res_id reservation,
                            resp_spotId = spot_id reservation,
                            resp_spotNumber = spot_number spot,
                            resp_customerName = customer_name reservation,
                            resp_customerEmail = customer_email reservation,
                            resp_startTime = start_time reservation,
                            resp_endTime = end_time reservation,
                            resp_createdAt = created_at reservation\<rparr>, w')))"

definition getReservation :: "int \<Rightarrow> tables \<Rightarrow> error + ReservationResponse" where
  "getReservation i t =
     (case getReservationById i t of
        None \<Rightarrow> Inl (ReservationError ''Reservation not found'' 404)
      | Some reservation \<Rightarrow>
          (case getSpotById (spot_id reservation) t of
             None \<Rightarrow> Inl (ReservationError ''Associated parking spot not found'' 500)
           | Some spot \<Rightarrow>
               Inr \<lparr>resp_id = res_id reservation,
                    resp_spotId = spot_id reservation,
                    resp_spotNumber = spot_number spot,
                    resp_customerName = customer_name reservation,
                    resp_customerEmail = customer_email reservation,
                    resp_startTime = start_time reservation,
                    resp_endTime = end_time reservation,
                    resp_createdAt = created_at reservation\<rparr>))"

definition cancelReservation :: "bool \<Rightarrow> int \<Rightarrow> world \<Rightarrow> (error + unit) \<times> world" where
  "cancelReservation io i w =
     (case deleteReservation io i w of
        (Inl e, w') \<Rightarrow> (Inl e, w')
      | (Inr deleted, w') \<Rightarrow>
          if \<not> deleted then (Inl (ReservationError ''Reservation not found'' 404), w')
          else (Inr (), w'))"

section \<open>middleware/idempotency.ts, routes/carpark.ts and the error handler of index.ts\<close>

text \<open>
  What goes out on the wire: the status code and the body text that \<open>res.json\<close> produced
  with \<open>JSON.stringify\<close>.
\<close>

record response =
  statusCode :: int
  body :: string

text \<open>
  \<open>res.status(c).json(b)\<close>, as a function of the status, the value and the state. The
  middleware replaces \<open>res.json\<close> by a function that first tries to store the response under
  the idempotency key; an exception of that attempt is caught and logged, nothing more.
\<close>

type_synonym json_fn = "int \<Rightarrow> json \<Rightarrow> world \<Rightarrow> response \<times> world"

definition originalJson :: "runtime \<Rightarrow> json_fn" where
  "originalJson js c b w = (\<lparr>statusCode = c, body = JSON_stringify js b\<rparr>, w)"

definition capturingJson :: "runtime \<Rightarrow> int \<Rightarrow> bool \<Rightarrow> string \<Rightarrow> json_fn" where
  "capturingJson js now io k c b w =
     originalJson js c b (snd (saveIdempotencyRecord js now io k c (JSON_stringify js b) w))"

text \<open>The error handler installed by \<open>index.ts\<close> for exceptions that leave a route.\<close>

definition errorHandler :: "json_fn \<Rightarrow> world \<Rightarrow> response \<times> world" where
  "errorHandler res_json w =
     res_json 500 (JObj [(''success'', JBool False), (''error'', JStr ''Internal server error'')]) w"

text \<open>
  \<open>requireIdempotencyKey\<close>. The header value is a string or \<open>undefined\<close>; \<open>next\<close> is the
  rest of the route, which receives the \<open>res.json\<close> it has to answer with.
\<close>

definition requireIdempotencyKey ::
  "runtime \<Rightarrow> int \<Rightarrow> bool \<Rightarrow> string option \<Rightarrow> (json_fn \<Rightarrow> world \<Rightarrow> response \<times> world)
     \<Rightarrow> world \<Rightarrow> response \<times> world" where
  "requireIdempotencyKey js now io idempotencyKey next w =
     (if \<not> truthy idempotencyKey
      then originalJson js 400
             (JObj [(''error'', JStr ''Missing required header''),
                    (''message'', JStr ''The x-idempotency-key header is required for this endpoint'')]) w
      else
        let k = the idempotencyKey in
        if length k < 1 \<or> length k > 255
        then originalJson js 400
               (JObj [(''error'', JStr ''Invalid idempotency key''),
                      (''message'', JStr ''Idempotency key must be between 1 and 255 characters'')]) w
        else
          (case getIdempotencyRecord k (db w) of
             Some cachedRecord \<Rightarrow>
               (case JSON_parse js (response_body cachedRecord) of
                  None \<Rightarrow> errorHandler (originalJson js) w
                | Some b \<Rightarrow> originalJson js (response_status cachedRecord) b w)
           | None \<Rightarrow> next (capturingJson js now io k) w))"

definition reservation_json :: "ReservationResponse \<Rightarrow> json" where
  "reservation_json r =
     JObj [(''id'', JNum (resp_id r)), (''spotId'', JNum (resp_spotId r)),
           (''spotNumber'', JStr (resp_spotNumber r)),
           (''customerName'', JStr (resp_customerName r)),
           (''customerEmail'', JStr (resp_customerEmail r)),
           (''startTime'', JStr (resp_startTime r)), (''endTime'', JStr (resp_endTime r)),
           (''createdAt'', JStr (resp_createdAt r))]"

text \<open>
  The handler of \<open>POST /reserve\<close>. \<open>schema\<close> is \<open>ReservationRequestSchema.parse\<close> of the zod
  library: \<open>Inl\<close> carries the issues of the ZodError, \<open>Inr\<close> the typed request. An exception
  that is neither a ZodError nor a ReservationError is rethrown and reaches \<open>errorHandler\<close>
  with the same \<open>res\<close>.
\<close>

definition reserve_handler ::
  "runtime \<Rightarrow> (json \<Rightarrow> json + ReservationRequest) \<Rightarrow> int \<Rightarrow> bool \<Rightarrow> json \<Rightarrow> json_fn
     \<Rightarrow> world \<Rightarrow> response \<times> world" where
  "reserve_handler js schema now io reqBody res_json w =
     (case schema reqBody of
        Inl issues \<Rightarrow>
          res_json 400 (JObj [(''success'', JBool False), (''error'', JStr ''Invalid request body''),
                              (''details'', issues)]) w
      | Inr request \<Rightarrow>
          (case makeReservation js now io request w of
             (Inr reservation, w') \<Rightarrow>
               res_json 201 (JObj [(''success'', JBool True), (''data'', reservation_json reservation),
                                   (''message'', JStr ''Reservation created successfully'')]) w'
           | (Inl (ReservationError message c), w') \<Rightarrow>
               res_json c (JObj [(''success'', JBool False), (''error'', JStr message)]) w'
           | (Inl _, w') \<Rightarrow> errorHandler res_json w'))"

definition post_reserve ::
  "runtime \<Rightarrow> (json \<Rightarrow> json + ReservationRequest) \<Rightarrow> int \<Rightarrow> bool \<Rightarrow> string option \<Rightarrow> json
     \<Rightarrow> world \<Rightarrow> response \<times> world" where
  "post_reserve js schema now io idempotencyKey reqBody w =
     requireIdempotencyKey js now io idempotencyKey (reserve_handler js schema now io reqBody) w"

section \<open>A concrete runtime for evaluation\<close>

text \<open>
  The date functions of ECMAScript, for the two forms of the date-time string format that
  end in \<open>Z\<close>: \<open>YYYY-MM-DDTHH:mm:ssZ\<close> and \<open>YYYY-MM-DDTHH:mm:ss.sssZ\<close>, with every field in
  range, and for time values from the epoch to the end of the year 9999, where
  \<open>toISOString\<close> prints the second form. They instantiate \<open>Date_parse\<close> and
  \<open>Date_toISOString\<close> where a theorem is evaluated at concrete requests.
\<close>

definition InLeapYear :: "int \<Rightarrow> bool" where
  "InLeapYear y = (y mod 4 = 0 \<and> (y mod 100 \<noteq> 0 \<or> y mod 400 = 0))"

definition DaysInYear :: "int \<Rightarrow> int" where
  "DaysInYear y = (if InLeapYear y then 366 else 365)"

definition DayFromYear :: "int \<Rightarrow> int" where
  "DayFromYear y = 365 * (y - 1970) + (y - 1969) div 4 - (y - 1901) div 100 + (y - 1601) div 400"

definition month_lengths :: "int \<Rightarrow> int list" where
  "month_lengths y = [31, if InLeapYear y then 29 else 28, 31, 30, 31, 30, 31, 31, 30, 31, 30, 31]"

definition MakeDay :: "int \<Rightarrow> nat \<Rightarrow> int \<Rightarrow> int" where
  "MakeDay year month date = DayFromYear year + sum_list (take month (month_lengths year)) + date - 1"

definition MakeTime :: "int \<Rightarrow> int \<Rightarrow> int \<Rightarrow> int \<Rightarrow> int" where
  "MakeTime hour minute sec ms = hour * 3600000 + minute * 60000 + sec * 1000 + ms"

definition MakeDate :: "int \<Rightarrow> int \<Rightarrow> int" where
  "MakeDate day time = day * 86400000 + time"

definition digit_val :: "char \<Rightarrow> int option" where
  "digit_val c = (let n = of_char c :: nat in if 48 \<le> n \<and> n \<le> 57 then Some (int n - 48) else None)"

fun number :: "string \<Rightarrow> int option" where
  "number [] = None"
| "number cs = fold (\<lambda>c acc. case acc of None \<Rightarrow> None
                              | Some a \<Rightarrow> (case digit_val c of None \<Rightarrow> None
                                           | Some d \<Rightarrow> Some (10 * a + d))) cs (Some 0)"

definition sub :: "string \<Rightarrow> nat \<Rightarrow> nat \<Rightarrow> string" where
  "sub s i n = take n (drop i s)"

definition isoParse :: "string \<Rightarrow> int option" where
  "isoParse s =
     (if (length s = 20 \<or> length s = 24) \<and> s ! 4 = CHR ''-'' \<and> s ! 7 = CHR ''-''
         \<and> s ! 10 = CHR ''T'' \<and> s ! 13 = CHR '':'' \<and> s ! 16 = CHR '':''
         \<and> last s = CHR ''Z'' \<and> (length s = 20 \<or> s ! 19 = CHR ''.'')
      then
        (case number (sub s 0 4) of None \<Rightarrow> None | Some y \<Rightarrow>
         case number (sub s 5 2) of None \<Rightarrow> None | Some mo \<Rightarrow>
         case number (sub s 8 2) of None \<Rightarrow> None | Some d \<Rightarrow>
         case number (sub s 11 2) of None \<Rightarrow> None | Some h \<Rightarrow>
         case number (sub s 14 2) of None \<Rightarrow> None | Some mi \<Rightarrow>
         case number (sub s 17 2) of None \<Rightarrow> None | Some sec \<Rightarrow>
         case (if length s = 24 then number (sub s 20 3) else Some 0) of None \<Rightarrow> None | Some ms \<Rightarrow>
           if 1 \<le> mo \<and> mo \<le> 12 \<and> 1 \<le> d \<and> d \<le> month_lengths y ! nat (mo - 1)
              \<and> h \<le> 23 \<and> mi \<le> 59 \<and> sec \<le> 59
           then Some (MakeDate (MakeDay y (nat (mo - 1)) d) (MakeTime h mi sec ms))
           else None)
      else None)"

text \<open>Printing: the year and the day within it, the month and the day within it, the fields.\<close>

function year_of_day :: "int \<Rightarrow> int \<Rightarrow> int \<times> int" where
  "year_of_day y d = (if d < DaysInYear y then (y, d) else year_of_day (y + 1) (d - DaysInYear y))"
  by pat_completeness auto
termination
  by (relation "measure (\<lambda>(y, d). nat d)") (auto simp: DaysInYear_def split: if_splits)

declare year_of_day.simps [simp del]

fun month_of_day :: "int list \<Rightarrow> nat \<Rightarrow> int \<Rightarrow> nat \<times> int" where
  "month_of_day [] m d = (m, d)"
| "month_of_day (l # ls) m d = (if d < l then (m, d) else month_of_day ls (Suc m) (d - l))"

definition pad2 :: "nat \<Rightarrow> string" where
  "pad2 n = [dig (n div 10 mod 10), dig (n mod 10)]"

definition pad3 :: "nat \<Rightarrow> string" where
  "pad3 n = [dig (n div 100 mod 10), dig (n div 10 mod 10), dig (n mod 10)]"

definition pad4 :: "nat \<Rightarrow> string" where
  "pad4 n = [dig (n div 1000 mod 10), dig (n div 100 mod 10), dig (n div 10 mod 10), dig (n mod 10)]"

definition time_of_day :: "nat \<Rightarrow> string" where
  "time_of_day ms =
     pad2 (ms div 3600000) @ '':'' @ pad2 (ms div 60000 mod 60) @ '':''
     @ pad2 (ms div 1000 mod 60) @ ''.'' @ pad3 (ms mod 1000) @ ''Z''"

definition isoFormat :: "int \<Rightarrow> string" where
  "isoFormat t =
     (let (y, doy) = year_of_day 1970 (t div 86400000);
          (m, d) = month_of_day (month_lengths y) 0 doy
      in pad4 (nat y) @ ''-'' @ pad2 (m + 1) @ ''-'' @ pad2 (nat d + 1) @ ''T''
         @ time_of_day (nat (t mod 86400000)))"

text \<open>
  \<open>JSON.stringify\<close> without indentation and \<open>JSON.parse\<close>, for the values of type
  \<open>json\<close>: numbers are integers, strings are byte strings, the control characters are
  escaped as \<open>JSON.stringify\<close> escapes them. The parser reads the compact texts that the
  printer writes; its recursion is bounded by a fuel that the length of the text covers.
\<close>

definition dq :: char where "dq = CHR 0x22"
definition bs :: char where "bs = CHR 0x5C"

definition hexdig :: "nat \<Rightarrow> char" where
  "hexdig n = ''0123456789abcdef'' ! n"

definition escape :: "char \<Rightarrow> string" where
  "escape c =
     (let n = of_char c :: nat in
      if c = dq then [bs, dq]
      else if c = bs then [bs, bs]
      else if n = 8 then [bs, CHR ''b'']
      else if n = 12 then [bs, CHR ''f'']
      else if n = 10 then [bs, CHR ''n'']
      else if n = 13 then [bs, CHR ''r'']
      else if n = 9 then [bs, CHR ''t'']
      else if n < 32 then [bs, CHR ''u'', CHR ''0'', CHR ''0'', hexdig (n div 16), hexdig (n mod 16)]
      else [c])"

definition quote :: "string \<Rightarrow> string" where
  "quote s = [dq] @ concat (map escape s) @ [dq]"

definition show_int :: "int \<Rightarrow> string" where
  "show_int i = (if i < 0 then ''-'' @ decimal (nat (- i)) else decimal (nat i))"

fun commas :: "string list \<Rightarrow> string" where
  "commas [] = []"
| "commas [x] = x"
| "commas (x # y # ys) = x @ '','' @ commas (y # ys)"

fun json_text :: "json \<Rightarrow> string" where
  "json_text JNull = ''null''"
| "json_text (JBool b) = (if b then ''true'' else ''false'')"
| "json_text (JNum n) = show_int n"
| "json_text (JStr s) = quote s"
| "json_text (JArr xs) = ''['' @ commas (map json_text xs) @ '']''"
| "json_text (JObj kvs) = ''{'' @ commas (map (\<lambda>(k, v). quote k @ '':'' @ json_text v) kvs) @ ''}''"


definition hexval :: "char \<Rightarrow> nat option" where
  "hexval c =
     (let n = of_char c :: nat in
      if 48 \<le> n \<and> n \<le> 57 then Some (n - 48)
      else if 97 \<le> n \<and> n \<le> 102 then Some (n - 87)
      else if 65 \<le> n \<and> n \<le> 70 then Some (n - 55)
      else None)"

definition unescape :: "char \<Rightarrow> char option" where
  "unescape e =
     (if e = dq then Some dq
      else if e = bs then Some bs
      else if e = CHR ''/'' then Some (CHR ''/'')
      else if e = CHR ''b'' then Some (char_of (8 :: nat))
      else if e = CHR ''f'' then Some (char_of (12 :: nat))
      else if e = CHR ''n'' then Some (char_of (10 :: nat))
      else if e = CHR ''r'' then Some (char_of (13 :: nat))
      else if e = CHR ''t'' then Some (char_of (9 :: nat))
      else None)"

fun parse_string :: "string \<Rightarrow> string \<Rightarrow> (string \<times> string) option" where
  "parse_string acc [] = None"
| "parse_string acc [c] = (if c = dq then Some (rev acc, []) else None)"
| "parse_string acc (c # e # cs) =
     (if c = dq then Some (rev acc, e # cs)
      else if c = bs then
        (if e = CHR ''u'' then
           (case map hexval (take 4 cs) of
              [Some 0, Some 0, Some h, Some l] \<Rightarrow> parse_string (char_of (16 * h + l) # acc) (drop 4 cs)
            | _ \<Rightarrow> None)
         else (case unescape e of None \<Rightarrow> None | Some ch \<Rightarrow> parse_string (ch # acc) cs))
      else parse_string (c # acc) (e # cs))"


definition parse_int :: "string \<Rightarrow> (json \<times> string) option" where
  "parse_int s =
     (let neg = (s \<noteq> [] \<and> hd s = CHR ''-'');
          body = (if neg then tl s else s);
          ds = takeWhile (\<lambda>c. digit_val c \<noteq> None) body
      in case number ds of
           None \<Rightarrow> None
         | Some n \<Rightarrow> Some (JNum (if neg then - n else n), drop (length ds) body))"

function parse_value :: "nat \<Rightarrow> string \<Rightarrow> (json \<times> string) option"
  and parse_elements :: "nat \<Rightarrow> json list \<Rightarrow> string \<Rightarrow> (json \<times> string) option"
  and parse_members :: "nat \<Rightarrow> (string \<times> json) list \<Rightarrow> string \<Rightarrow> (json \<times> string) option"
where
  "parse_value fuel s =
     (if fuel = 0 \<or> s = [] then None
      else if take 4 s = ''null'' then Some (JNull, drop 4 s)
      else if take 4 s = ''true'' then Some (JBool True, drop 4 s)
      else if take 5 s = ''false'' then Some (JBool False, drop 5 s)
      else if hd s = dq then
        (case parse_string [] (tl s) of
           None \<Rightarrow> None
         | Some (str, rest) \<Rightarrow> Some (JStr str, rest))
      else if take 2 s = ''[]'' then Some (JArr [], drop 2 s)
      else if hd s = CHR ''['' then parse_elements (fuel - 1) [] (tl s)
      else if take 2 s = ''{}'' then Some (JObj [], drop 2 s)
      else if hd s = CHR ''{'' then parse_members (fuel - 1) [] (tl s)
      else parse_int s)"
| "parse_elements fuel acc s =
     (if fuel = 0 then None
      else case parse_value (fuel - 1) s of
             None \<Rightarrow> None
           | Some (v, rest) \<Rightarrow>
               if rest = [] then None
               else if hd rest = CHR '','' then parse_elements (fuel - 1) (acc @ [v]) (tl rest)
               else if hd rest = CHR '']'' then Some (JArr (acc @ [v]), tl rest)
               else None)"
| "parse_members fuel acc s =
     (if fuel = 0 \<or> s = [] \<or> hd s \<noteq> dq then None
      else case parse_string [] (tl s) of
             None \<Rightarrow> None
           | Some (k, rest) \<Rightarrow>
               if rest = [] \<or> hd rest \<noteq> CHR '':'' then None
               else case parse_value (fuel - 1) (tl rest) of
                      None \<Rightarrow> None
                    | Some (v, rest') \<Rightarrow>
                        if rest' = [] then None
                        else if hd rest' = CHR '','' then parse_members (fuel - 1) (acc @ [(k, v)]) (tl rest')
                        else if hd rest' = CHR ''}'' then Some (JObj (acc @ [(k, v)]), tl rest')
                        else None)"
  by pat_completeness auto
termination
  by (relation "measure (\<lambda>x. case x of Inl (f, _) \<Rightarrow> f | Inr (Inl (f, _)) \<Rightarrow> f | Inr (Inr (f, _)) \<Rightarrow> f)")
     auto

declare parse_value.simps [simp del] parse_elements.simps [simp del] parse_members.simps [simp del]

definition json_parse :: "string \<Rightarrow> json option" where
  "json_parse s =
     (case parse_value (2 * length s) s of
        None \<Rightarrow> None
      | Some (v, rest) \<Rightarrow> if rest = [] then Some v else None)"

text \<open>The runtime made of the concrete functions.\<close>

definition node :: runtime where
  "node = \<lparr>Date_parse = isoParse, Date_toISOString = isoFormat,
           JSON_stringify = json_text, JSON_parse = json_parse\<rparr>"

section \<open>Notions used in the statements\<close>

text \<open>
  The row that \<open>createReservation\<close> inserts for a request, the tables after the INSERT, and
  the response that \<open>makeReservation\<close> builds from the spot and the row.
\<close>

definition booked_row :: "runtime \<Rightarrow> int \<Rightarrow> ReservationRequest \<Rightarrow> tables \<Rightarrow> Reservation" where
  "booked_row js now rq t =
     \<lparr>res_id = fresh_id t, spot_id = spotId rq, customer_name = customerName rq,
      customer_email = customerEmail rq, start_time = startTime rq, end_time = endTime rq,
      created_at = Date_toISOString js now\<rparr>"

definition booked_tables :: "runtime \<Rightarrow> int \<Rightarrow> ReservationRequest \<Rightarrow> tables \<Rightarrow> tables" where
  "booked_tables js now rq t =
     t\<lparr>reservations := reservations t @ [booked_row js now rq t], reservations_seq := fresh_id t\<rparr>"

definition response_of :: "CarParkSpot \<Rightarrow> Reservation \<Rightarrow> ReservationResponse" where
  "response_of spot r =
     \<lparr>resp_id = res_id r, resp_spotId = spot_id r, resp_spotNumber = spot_number spot,
      resp_customerName = customer_name r, resp_customerEmail = customer_email r,
      resp_startTime = start_time r, resp_endTime = end_time r, resp_createdAt = created_at r\<rparr>"

text \<open>The state of a first start: no file, the twenty seeded spots, no reservation.\<close>

definition seeded_spots :: "CarParkSpot list" where
  "seeded_spots =
     [\<lparr>sp_id = 1, spot_number = ''A1'', floor_no = 1, is_available = 1\<rparr>,
      \<lparr>sp_id = 2, spot_number = ''B1'', floor_no = 2, is_available = 1\<rparr>,
      \<lparr>sp_id = 3, spot_number = ''A2'', floor_no = 1, is_available = 1\<rparr>,
      \<lparr>sp_id = 4, spot_number = ''B2'', floor_no = 2, is_available = 1\<rparr>,
      \<lparr>sp_id = 5, spot_number = ''A3'', floor_no = 1, is_available = 1\<rparr>,
      \<lparr>sp_id = 6, spot_number = ''B3'', floor_no = 2, is_available = 1\<rparr>,
      \<lparr>sp_id = 7, spot_number = ''A4'', floor_no = 1, is_available = 1\<rparr>,
      \<lparr>sp_id = 8, spot_number = ''B4'', floor_no = 2, is_available = 1\<rparr>,
      \<lparr>sp_id = 9, spot_number = ''A5'', floor_no = 1, is_available = 1\<rparr>,
      \<lparr>sp_id = 10, spot_number = ''B5'', floor_no = 2, is_available = 1\<rparr>,
      \<lparr>sp_id = 11, spot_number = ''A6'', floor_no = 1, is_available = 1\<rparr>,
      \<lparr>sp_id = 12, spot_number = ''B6'', floor_no = 2, is_available = 1\<rparr>,
      \<lparr>sp_id = 13, spot_number = ''A7'', floor_no = 1, is_available = 1\<rparr>,
      \<lparr>sp_id = 14, spot_number = ''B7'', floor_no = 2, is_available = 1\<rparr>,
      \<lparr>sp_id = 15, spot_number = ''A8'', floor_no = 1, is_available = 1\<rparr>,
      \<lparr>sp_id = 16, spot_number = ''B8'', floor_no = 2, is_available = 1\<rparr>,
      \<lparr>sp_id = 17, spot_number = ''A9'', floor_no = 1, is_available = 1\<rparr>,
      \<lparr>sp_id = 18, spot_number = ''B9'', floor_no = 2, is_available = 1\<rparr>,
      \<lparr>sp_id = 19, spot_number = ''A10'', floor_no = 1, is_available = 1\<rparr>,
      \<lparr>sp_id = 20, spot_number = ''B10'', floor_no = 2, is_available = 1\<rparr>]"

definition fresh_world :: world where
  "fresh_world = snd (initializeDatabase True None)"

text \<open>
  States and requests at which the theorems are evaluated: a state whose only spot is not
  available, a request for spot 1, the row and the state after a first booking of spot 1
  from 10:00 to 12:00 on 2030-01-01, made at 00:00 (time value 1893456000000).
\<close>

definition closed_world :: world where
  "closed_world =
     fresh_world\<lparr>db := (db fresh_world)\<lparr>car_park_spots :=
        [\<lparr>sp_id = 1, spot_number = ''A1'', floor_no = 1, is_available = 0\<rparr>]\<rparr>\<rparr>"

definition ann :: "string \<Rightarrow> string \<Rightarrow> ReservationRequest" where
  "ann a b = \<lparr>spotId = 1, customerName = ''Ann'', customerEmail = ''ann@example.com'',
              startTime = a, endTime = b\<rparr>"

definition ann_row :: Reservation where
  "ann_row = \<lparr>res_id = 1, spot_id = 1, customer_name = ''Ann'', customer_email = ''ann@example.com'',
         start_time = ''2030-01-01T10:00:00.000Z'', end_time = ''2030-01-01T12:00:00.000Z'',
         created_at = ''2030-01-01T00:00:00.000Z''\<rparr>"

definition ann_world :: world where
  "ann_world = snd (makeReservation node 1893456000000 True
     (ann ''2030-01-01T10:00:00.000Z'' ''2030-01-01T12:00:00.000Z'') fresh_world)"

text \<open>The state after a first response was stored under the key \<open>key-1\<close>.\<close>

definition key_world :: world where
  "key_world = snd (saveIdempotencyRecord node 1893456000000 True ''key-1'' 201 ''{}'' fresh_world)"

text \<open>
  The states that successful bookings and cancellations reach from a state \<open>w0\<close>, and the
  property that no two stored reservations of one spot intersect in the order in which
  the store compares their timestamp texts.
\<close>

inductive reachable :: "runtime \<Rightarrow> world \<Rightarrow> world \<Rightarrow> bool" for js :: runtime and w0 :: world where
  start: "reachable js w0 w0"
| book: "reachable js w0 w \<Longrightarrow> makeReservation js now io rq w = (Inr resp, w') \<Longrightarrow> reachable js w0 w'"
| cancel: "reachable js w0 w \<Longrightarrow> cancelReservation io i w = (Inr (), w') \<Longrightarrow> reachable js w0 w'"

definition text_disjoint :: "Reservation list \<Rightarrow> bool" where
  "text_disjoint rs =
     (\<forall>r1 \<in> set rs. \<forall>r2 \<in> set rs. r1 \<noteq> r2 \<longrightarrow> spot_id r1 = spot_id r2 \<longrightarrow>
        \<not> (start_time r1 < end_time r2 \<and> end_time r1 > start_time r2))"

text \<open>
  Two requests for spot 1 whose timestamps are written in the two forms of the date-time
  format: the first ends at 12:00:00.500, the second starts at 12:00:00.
\<close>

definition ann_late :: ReservationRequest where
  "ann_late = \<lparr>spotId = 1, customerName = ''Ann'', customerEmail = ''ann@example.com'',
      startTime = ''2030-01-01T10:00:00.000Z'', endTime = ''2030-01-01T12:00:00.500Z''\<rparr>"

definition bob :: ReservationRequest where
  "bob = \<lparr>spotId = 1, customerName = ''Bob'', customerEmail = ''bob@example.com'',
      startTime = ''2030-01-01T12:00:00Z'', endTime = ''2030-01-01T14:00:00Z''\<rparr>"

definition late_world :: world where
  "late_world = snd (makeReservation node 1893456000000 True ann_late fresh_world)"

definition two_bookings :: world where
  "two_bookings = snd (makeReservation node 1893456000000 True bob late_world)"

text \<open>
  An instance of the parameter \<open>schema\<close> for evaluation. It has the shape of
  \<open>ReservationRequestSchema.parse\<close>: an object with a positive \<open>spotId\<close>, a
  \<open>customerName\<close> of 1 to 100 characters, a \<open>customerEmail\<close> with an \<open>@\<close> and two timestamps
  that \<open>isoParse\<close> reads; the issues it reports are the names of the failing fields. The
  theorems hold for every \<open>schema\<close>.
\<close>

definition example_schema :: "json \<Rightarrow> json + ReservationRequest" where
  "example_schema b =
     (case b of
        JObj kvs \<Rightarrow>
          (case (map_of kvs ''spotId'', map_of kvs ''customerName'', map_of kvs ''customerEmail'',
                 map_of kvs ''startTime'', map_of kvs ''endTime'') of
             (Some (JNum i), Some (JStr n), Some (JStr e), Some (JStr a), Some (JStr z)) \<Rightarrow>
               (let issues =
                      (if 0 < i then [] else [JStr ''spotId''])
                      @ (if 1 \<le> length n \<and> length n \<le> 100 then [] else [JStr ''customerName''])
                      @ (if CHR ''@'' \<in> set e then [] else [JStr ''customerEmail''])
                      @ (if isoParse a \<noteq> None then [] else [JStr ''startTime''])
                      @ (if isoParse z \<noteq> None then [] else [JStr ''endTime''])
                in if issues = []
                   then Inr \<lparr>spotId = i, customerName = n, customerEmail = e, startTime = a,
                             endTime = z\<rparr>
                   else Inl (JArr issues))
           | _ \<Rightarrow> Inl (JArr [JStr ''invalid_type'']))
      | _ \<Rightarrow> Inl (JArr [JStr ''invalid_type'']))"

definition body_of :: "string \<Rightarrow> json" where
  "body_of n =
     JObj [(''spotId'', JNum 1), (''customerName'', JStr n),
           (''customerEmail'', JStr ''ann@example.com''),
           (''startTime'', JStr ''2030-01-01T10:00:00.000Z''),
           (''endTime'', JStr ''2030-01-01T12:00:00.000Z'')]"

text \<open>
  The response bodies of a first booking and of a request whose \<open>customerName\<close> is
  empty, and the states after each of the two as a first request under the key \<open>key-1\<close>.
\<close>

definition ann_created :: json where
  "ann_created =
     JObj [(''success'', JBool True),
           (''data'', reservation_json
              \<lparr>resp_id = 1, resp_spotId = 1, resp_spotNumber = ''A1'', resp_customerName = ''Ann'',
               resp_customerEmail = ''ann@example.com'',
               resp_startTime = ''2030-01-01T10:00:00.000Z'',
               resp_endTime = ''2030-01-01T12:00:00.000Z'',
               resp_createdAt = ''2030-01-01T00:00:00.000Z''\<rparr>),
           (''message'', JStr ''Reservation created successfully'')]"

definition name_rejected :: json where
  "name_rejected =
     JObj [(''success'', JBool False), (''error'', JStr ''Invalid request body''),
           (''details'', JArr [JStr ''customerName''])]"

definition posted_world :: world where
  "posted_world =
     snd (post_reserve node example_schema 1893456000000 True (Some ''key-1'') (body_of ''Ann'')
            fresh_world)"

definition rejected_world :: world where
  "rejected_world =
     snd (post_reserve node example_schema 1893456000000 True (Some ''key-1'') (body_of [])
            fresh_world)"

text \<open>
  A cache with three records, stamped one millisecond more than 24 hours, exactly 24 hours,
  and 23 hours 59 minutes before the time value 1893456000000, and their instants.
\<close>

definition purge_world :: world where
  "purge_world =
     fresh_world\<lparr>db := (db fresh_world)\<lparr>idempotency_keys :=
        [\<lparr>key = ''k1'', response_status = 201, response_body = ''{}'',
          key_created_at = isoFormat (1893456000000 - 24 * 3600000 - 1)\<rparr>,
         \<lparr>key = ''k2'', response_status = 201, response_body = ''{}'',
          key_created_at = isoFormat (1893456000000 - 24 * 3600000)\<rparr>,
         \<lparr>key = ''k3'', response_status = 201, response_body = ''{}'',
          key_created_at = isoFormat (1893456000000 - 23 * 3600000 - 59 * 60000)\<rparr>]\<rparr>\<rparr>"

definition purge_at :: "IdempotencyRecord \<Rightarrow> int" where
  "purge_at r =
     (if key r = ''k1'' then 1893456000000 - 24 * 3600000 - 1
      else if key r = ''k2'' then 1893456000000 - 24 * 3600000
      else 1893456000000 - 23 * 3600000 - 59 * 60000)"

text \<open>
  Two requests for spot 1 that touch at noon, written in the two forms of the date-time
  format: the first ends at \<open>2030-01-01T12:00:00Z\<close>, the second starts at
  \<open>2030-01-01T12:00:00.000Z\<close>, the same instant.
\<close>

definition ann_short :: ReservationRequest where
  "ann_short = \<lparr>spotId = 1, customerName = ''Ann'', customerEmail = ''ann@example.com'',
      startTime = ''2030-01-01T10:00:00Z'', endTime = ''2030-01-01T12:00:00Z''\<rparr>"

definition bob_next :: ReservationRequest where
  "bob_next = \<lparr>spotId = 1, customerName = ''Bob'', customerEmail = ''bob@example.com'',
      startTime = ''2030-01-01T12:00:00.000Z'', endTime = ''2030-01-01T14:00:00.000Z''\<rparr>"

definition short_world :: world where
  "short_world = snd (makeReservation node 1893456000000 True ann_short fresh_world)"

section \<open>Evaluation\<close>

lemmas eval_defs = saveDatabase_def
  makeReservation_def getSpotById_def date_ge_def date_lt_def hasOverlappingReservation_def
  createReservation_def fresh_id_def getReservationById_def node_def
  isoParse_def sub_def digit_val_def month_lengths_def MakeDate_def MakeDay_def MakeTime_def
  DayFromYear_def InLeapYear_def dig_def
  isoFormat_def time_of_day_def year_of_day.simps DaysInYear_def pad2_def pad3_def pad4_def Let_def
  booked_row_def booked_tables_def response_of_def

lemma fresh_world_eq:
  "fresh_world =
     \<lparr>db = \<lparr>car_park_spots = seeded_spots, car_park_spots_seq = 20, reservations = [],
             reservations_seq = 0, idempotency_keys = []\<rparr>,
      disk = Some \<lparr>car_park_spots = seeded_spots, car_park_spots_seq = 20, reservations = [],
             reservations_seq = 0, idempotency_keys = []\<rparr>\<rparr>"
  by (simp add: fresh_world_def initializeDatabase_def insert_spot_def saveDatabase_def
      decimal.simps dig_def upt_rec seeded_spots_def Let_def)

section \<open>The reservation ledger\<close>

lemma find_append_conv:
  "find P (xs @ ys) = (case find P xs of None \<Rightarrow> find P ys | Some x \<Rightarrow> Some x)"
  by (induction xs) auto

lemma res_id_le_foldr_max: "r \<in> set rs \<Longrightarrow> res_id r \<le> foldr max (map res_id rs) q"
  by (induction rs) auto

lemma fresh_id_greater: "r \<in> set (reservations t) \<Longrightarrow> res_id r < fresh_id t"
  using res_id_le_foldr_max [of r "reservations t" "reservations_seq t"]
  by (simp add: fresh_id_def)

lemma find_fresh_None: "find (\<lambda>r. res_id r = fresh_id t) (reservations t) = None"
proof -
  have "\<not> (\<exists>x. x \<in> set (reservations t) \<and> res_id x = fresh_id t)"
    using fresh_id_greater [of _ t] by force
  then show ?thesis by (simp add: find_None_iff)
qed

lemma hasOverlappingReservation_iff:
  "hasOverlappingReservation s a b t \<longleftrightarrow>
     (\<exists>r \<in> set (reservations t). spot_id r = s \<and> start_time r < b \<and> end_time r > a)"
  by (auto simp: hasOverlappingReservation_def filter_empty_conv)

lemma createReservation_eq:
  "createReservation js now io (spotId rq) (customerName rq) (customerEmail rq) (startTime rq)
     (endTime rq) w =
     (if io then (Inr (booked_row js now rq (db w)),
                  w\<lparr>db := booked_tables js now rq (db w),
                    disk := Some (booked_tables js now rq (db w))\<rparr>)
      else (Inl FsError, w\<lparr>db := booked_tables js now rq (db w)\<rparr>))"
  by (simp add: createReservation_def saveDatabase_def Let_def getReservationById_def
      find_append_conv find_fresh_None booked_row_def booked_tables_def)

lemma makeReservation_eq:
  "makeReservation js now io rq w =
     (case getSpotById (spotId rq) (db w) of
        None \<Rightarrow> (Inl (ReservationError ''Parking spot not found'' 404), w)
      | Some spot \<Rightarrow>
          if is_available spot = 0
          then (Inl (ReservationError ''Parking spot is not available for reservations'' 400), w)
          else if date_ge (Date_parse js (startTime rq)) (Date_parse js (endTime rq))
          then (Inl (ReservationError ''End time must be after start time'' 400), w)
          else if date_lt (Date_parse js (startTime rq)) (Some now)
          then (Inl (ReservationError ''Start time cannot be in the past'' 400), w)
          else if hasOverlappingReservation (spotId rq) (startTime rq) (endTime rq) (db w)
          then (Inl (ReservationError
                  ''This spot is already reserved for the requested time period'' 409), w)
          else if io
          then (Inr (response_of spot (booked_row js now rq (db w))),
                w\<lparr>db := booked_tables js now rq (db w),
                  disk := Some (booked_tables js now rq (db w))\<rparr>)
          else (Inl FsError, w\<lparr>db := booked_tables js now rq (db w)\<rparr>))"
  unfolding makeReservation_def Let_def createReservation_eq
  by (simp add: response_of_def split: option.splits)

lemma makeReservation_InrD:
  assumes "makeReservation js now io rq w = (Inr resp, w')"
  shows "io \<and> (\<exists>spot. getSpotById (spotId rq) (db w) = Some spot \<and> is_available spot \<noteq> 0
            \<and> resp = response_of spot (booked_row js now rq (db w)))
          \<and> \<not> date_ge (Date_parse js (startTime rq)) (Date_parse js (endTime rq))
          \<and> \<not> date_lt (Date_parse js (startTime rq)) (Some now)
          \<and> \<not> hasOverlappingReservation (spotId rq) (startTime rq) (endTime rq) (db w)
          \<and> w' = w\<lparr>db := booked_tables js now rq (db w),
                      disk := Some (booked_tables js now rq (db w))\<rparr>"
  using assms unfolding makeReservation_eq
  by (auto split: option.splits if_splits)


text \<open>
  What the code gives for back-to-back bookings: a booking that ends at the text \<open>t1\<close> does
  not block a request that starts at the same text \<open>t1\<close>. When the first booking succeeded,
  the second interval is valid and not in the past, and nothing stored before overlapped
  it in the order of the texts, the second booking succeeds too.
\<close>

lemma adjacent_same_text_accepted:
  assumes first: "makeReservation js n1 io1
          \<lparr>spotId = s, customerName = c1, customerEmail = e1, startTime = t0, endTime = t1\<rparr> w
          = (Inr resp1, w1)"
    and valid: "\<not> date_ge (Date_parse js t1) (Date_parse js t2)"
    and future: "\<not> date_lt (Date_parse js t1) (Some n2)"
    and free: "\<not> hasOverlappingReservation s t1 t2 (db w)"
  shows "\<exists>resp2 w2. makeReservation js n2 True
               \<lparr>spotId = s, customerName = c2, customerEmail = e2, startTime = t1, endTime = t2\<rparr> w1
               = (Inr resp2, w2)"
proof -
  let ?rq1 = "\<lparr>spotId = s, customerName = c1, customerEmail = e1, startTime = t0, endTime = t1\<rparr>"
  let ?rq2 = "\<lparr>spotId = s, customerName = c2, customerEmail = e2, startTime = t1, endTime = t2\<rparr>"
  from makeReservation_InrD [OF first]
  obtain spot where spot: "getSpotById s (db w) = Some spot" "is_available spot \<noteq> 0"
    and w1: "w1 = w\<lparr>db := booked_tables js n1 ?rq1 (db w),
                     disk := Some (booked_tables js n1 ?rq1 (db w))\<rparr>"
    by auto
  have spot1: "getSpotById s (db w1) = Some spot"
    using spot by (simp add: w1 getSpotById_def booked_tables_def)
  have "\<not> end_time (booked_row js n1 ?rq1 (db w)) > t1"
    by (simp add: booked_row_def)
  with free have free1: "\<not> hasOverlappingReservation s t1 t2 (db w1)"
    by (auto simp: hasOverlappingReservation_iff w1 booked_tables_def)
  show "\<exists>resp2 w2. makeReservation js n2 True ?rq2 w1 = (Inr resp2, w2)"
    using spot1 spot(2) valid future free1 by (simp add: makeReservation_eq)
qed

lemma node_parse_evals:
  "Date_parse node ''2030-01-01T10:00:00.000Z'' = Some 1893492000000"
  "Date_parse node ''2030-01-01T12:00:00.000Z'' = Some 1893499200000"
  "Date_parse node ''2030-01-01T14:00:00.000Z'' = Some 1893506400000"
  "Date_parse node ''2030-01-01T11:00:00.000Z'' = Some 1893495600000"
  "Date_parse node ''2030-01-01T13:00:00.000Z'' = Some 1893502800000"
  "Date_parse node ''2029-12-31T23:59:59.000Z'' = Some 1893455999000"
  "Date_parse node ''2030-01-01T12:00:00.500Z'' = Some 1893499200500"
  "Date_parse node ''2030-01-01T12:00:00Z'' = Some 1893499200000"
  "Date_parse node ''2030-01-01T14:00:00Z'' = Some 1893506400000"
  "Date_parse node ''2030-01-01T10:00:00Z'' = Some 1893492000000"
  by (simp_all add: eval_defs)

lemma node_format_evals:
  "Date_toISOString node 1893456000000 = ''2030-01-01T00:00:00.000Z''"
  by (simp_all add: eval_defs)

lemma getSpotById_fresh:
  "getSpotById 1 (db fresh_world) = Some \<lparr>sp_id = 1, spot_number = ''A1'', floor_no = 1, is_available = 1\<rparr>"
  "getSpotById 99 (db fresh_world) = None"
  by (simp_all add: fresh_world_eq seeded_spots_def getSpotById_def)

lemma ann_world_eq:
  "ann_world =
     \<lparr>db = \<lparr>car_park_spots = seeded_spots, car_park_spots_seq = 20, reservations = [ann_row],
             reservations_seq = 1, idempotency_keys = []\<rparr>,
      disk = Some \<lparr>car_park_spots = seeded_spots, car_park_spots_seq = 20, reservations = [ann_row],
             reservations_seq = 1, idempotency_keys = []\<rparr>\<rparr>"
  unfolding ann_world_def makeReservation_eq
  by (simp add: getSpotById_fresh node_parse_evals node_format_evals ann_def date_ge_def date_lt_def
      hasOverlappingReservation_def booked_tables_def booked_row_def fresh_id_def ann_row_def)
     (simp add: fresh_world_eq)

lemma getSpotById_ann:
  "getSpotById 1 (db ann_world) = Some \<lparr>sp_id = 1, spot_number = ''A1'', floor_no = 1, is_available = 1\<rparr>"
  by (simp_all add: ann_world_eq seeded_spots_def getSpotById_def)

text \<open>
  C3, as the code has it. \<open>makeReservation\<close> checks in this order, the first failure
  winning and leaving the state as it was: the spot does not exist (404, not found); the
  spot exists and is not available (400, a different error); the parsed start is not
  before the parsed end (400); the parsed start is before now (400); a stored reservation
  of the spot overlaps (409). Otherwise, when the database file can be written, the row is
  inserted with a fresh id and the response built from it is returned. The comparisons of
  the two range checks are JavaScript's on Date objects, false when a Date is invalid.
\<close>

theorem makeReservation_checks_in_order:
  "(getSpotById (spotId rq) (db w) = None \<longrightarrow>
      makeReservation js now io rq w = (Inl (ReservationError ''Parking spot not found'' 404), w))
   \<and> (\<forall>spot. getSpotById (spotId rq) (db w) = Some spot \<longrightarrow>
        (is_available spot = 0 \<longrightarrow>
           makeReservation js now io rq w =
             (Inl (ReservationError ''Parking spot is not available for reservations'' 400), w))
      \<and> (is_available spot \<noteq> 0 \<longrightarrow>
           (date_ge (Date_parse js (startTime rq)) (Date_parse js (endTime rq)) \<longrightarrow>
              makeReservation js now io rq w =
                (Inl (ReservationError ''End time must be after start time'' 400), w))
         \<and> (\<not> date_ge (Date_parse js (startTime rq)) (Date_parse js (endTime rq)) \<longrightarrow>
              (date_lt (Date_parse js (startTime rq)) (Some now) \<longrightarrow>
                 makeReservation js now io rq w =
                   (Inl (ReservationError ''Start time cannot be in the past'' 400), w))
            \<and> (\<not> date_lt (Date_parse js (startTime rq)) (Some now) \<longrightarrow>
                 (hasOverlappingReservation (spotId rq) (startTime rq) (endTime rq) (db w) \<longrightarrow>
                    makeReservation js now io rq w =
                      (Inl (ReservationError
                         ''This spot is already reserved for the requested time period'' 409), w))
               \<and> (\<not> hasOverlappingReservation (spotId rq) (startTime rq) (endTime rq) (db w) \<longrightarrow>
                    io \<longrightarrow>
                    makeReservation js now io rq w =
                      (Inr (response_of spot (booked_row js now rq (db w))),
                       w\<lparr>db := booked_tables js now rq (db w),
                         disk := Some (booked_tables js now rq (db w))\<rparr>))))))"
  by (simp add: makeReservation_eq)

theorem makeReservation_checks_in_order_witness:
  "makeReservation node 1893456000000 True
     \<lparr>spotId = 99, customerName = ''Ann'', customerEmail = ''ann@example.com'',
      startTime = ''2030-01-01T10:00:00.000Z'', endTime = ''2030-01-01T12:00:00.000Z''\<rparr> fresh_world
     = (Inl (ReservationError ''Parking spot not found'' 404), fresh_world)
   \<and> makeReservation node 1893456000000 True
       (ann ''2030-01-01T10:00:00.000Z'' ''2030-01-01T12:00:00.000Z'') closed_world
     = (Inl (ReservationError ''Parking spot is not available for reservations'' 400), closed_world)
   \<and> makeReservation node 1893456000000 True
       (ann ''2030-01-01T10:00:00.000Z'' ''2030-01-01T10:00:00.000Z'') fresh_world
     = (Inl (ReservationError ''End time must be after start time'' 400), fresh_world)
   \<and> makeReservation node 1893456000000 True
       (ann ''2029-12-31T23:59:59.000Z'' ''2030-01-01T10:00:00.000Z'') fresh_world
     = (Inl (ReservationError ''Start time cannot be in the past'' 400), fresh_world)
   \<and> makeReservation node 1893456000000 True
       (ann ''2030-01-01T11:00:00.000Z'' ''2030-01-01T13:00:00.000Z'') ann_world
     = (Inl (ReservationError ''This spot is already reserved for the requested time period'' 409),
        ann_world)
   \<and> fst (makeReservation node 1893456000000 True
       (ann ''2030-01-01T12:00:00.000Z'' ''2030-01-01T14:00:00.000Z'') ann_world)
     = Inr \<lparr>resp_id = 2, resp_spotId = 1, resp_spotNumber = ''A1'', resp_customerName = ''Ann'',
            resp_customerEmail = ''ann@example.com'', resp_startTime = ''2030-01-01T12:00:00.000Z'',
            resp_endTime = ''2030-01-01T14:00:00.000Z'', resp_createdAt = ''2030-01-01T00:00:00.000Z''\<rparr>"
proof (intro conjI)
  show "makeReservation node 1893456000000 True
     \<lparr>spotId = 99, customerName = ''Ann'', customerEmail = ''ann@example.com'',
      startTime = ''2030-01-01T10:00:00.000Z'', endTime = ''2030-01-01T12:00:00.000Z''\<rparr> fresh_world
     = (Inl (ReservationError ''Parking spot not found'' 404), fresh_world)"
    using makeReservation_checks_in_order [where w = fresh_world and js = node
        and now = 1893456000000 and io = True
        and rq = "\<lparr>spotId = 99, customerName = ''Ann'', customerEmail = ''ann@example.com'',
      startTime = ''2030-01-01T10:00:00.000Z'', endTime = ''2030-01-01T12:00:00.000Z''\<rparr>"]
    by (simp add: getSpotById_fresh)
next
  have "getSpotById 1 (db closed_world)
      = Some \<lparr>sp_id = 1, spot_number = ''A1'', floor_no = 1, is_available = 0\<rparr>"
    by (simp add: closed_world_def getSpotById_def)
  then show "makeReservation node 1893456000000 True
       (ann ''2030-01-01T10:00:00.000Z'' ''2030-01-01T12:00:00.000Z'') closed_world
     = (Inl (ReservationError ''Parking spot is not available for reservations'' 400), closed_world)"
    using makeReservation_checks_in_order [where w = closed_world and js = node
        and now = 1893456000000 and io = True
        and rq = "ann ''2030-01-01T10:00:00.000Z'' ''2030-01-01T12:00:00.000Z''"]
    by (simp add: ann_def)
next
  show "makeReservation node 1893456000000 True
       (ann ''2030-01-01T10:00:00.000Z'' ''2030-01-01T10:00:00.000Z'') fresh_world
     = (Inl (ReservationError ''End time must be after start time'' 400), fresh_world)"
    using makeReservation_checks_in_order [where w = fresh_world and js = node
        and now = 1893456000000 and io = True
        and rq = "ann ''2030-01-01T10:00:00.000Z'' ''2030-01-01T10:00:00.000Z''"]
    by (simp add: ann_def getSpotById_fresh node_parse_evals date_ge_def)
next
  show "makeReservation node 1893456000000 True
       (ann ''2029-12-31T23:59:59.000Z'' ''2030-01-01T10:00:00.000Z'') fresh_world
     = (Inl (ReservationError ''Start time cannot be in the past'' 400), fresh_world)"
    using makeReservation_checks_in_order [where w = fresh_world and js = node
        and now = 1893456000000 and io = True
        and rq = "ann ''2029-12-31T23:59:59.000Z'' ''2030-01-01T10:00:00.000Z''"]
    by (simp add: ann_def getSpotById_fresh node_parse_evals date_ge_def date_lt_def)
next
  have "hasOverlappingReservation 1 ''2030-01-01T11:00:00.000Z'' ''2030-01-01T13:00:00.000Z''
          (db ann_world)"
    by (simp add: ann_world_eq hasOverlappingReservation_def ann_row_def)
  then show "makeReservation node 1893456000000 True
       (ann ''2030-01-01T11:00:00.000Z'' ''2030-01-01T13:00:00.000Z'') ann_world
     = (Inl (ReservationError ''This spot is already reserved for the requested time period'' 409),
        ann_world)"
    using makeReservation_checks_in_order [where w = ann_world and js = node
        and now = 1893456000000 and io = True
        and rq = "ann ''2030-01-01T11:00:00.000Z'' ''2030-01-01T13:00:00.000Z''"]
    by (simp add: ann_def getSpotById_ann node_parse_evals date_ge_def date_lt_def)
next
  have free: "\<not> hasOverlappingReservation 1 ''2030-01-01T12:00:00.000Z'' ''2030-01-01T14:00:00.000Z''
          (db ann_world)"
    by (simp add: ann_world_eq hasOverlappingReservation_def ann_row_def)
  have fresh: "fresh_id (db ann_world) = 2"
    by (simp add: ann_world_eq fresh_id_def ann_row_def)
  show "fst (makeReservation node 1893456000000 True
       (ann ''2030-01-01T12:00:00.000Z'' ''2030-01-01T14:00:00.000Z'') ann_world)
     = Inr \<lparr>resp_id = 2, resp_spotId = 1, resp_spotNumber = ''A1'', resp_customerName = ''Ann'',
            resp_customerEmail = ''ann@example.com'', resp_startTime = ''2030-01-01T12:00:00.000Z'',
            resp_endTime = ''2030-01-01T14:00:00.000Z'', resp_createdAt = ''2030-01-01T00:00:00.000Z''\<rparr>"
    using makeReservation_checks_in_order [where w = ann_world and js = node
        and now = 1893456000000 and io = True
        and rq = "ann ''2030-01-01T12:00:00.000Z'' ''2030-01-01T14:00:00.000Z''"] free fresh
    by (simp add: ann_def getSpotById_ann node_parse_evals node_format_evals date_ge_def date_lt_def
        response_of_def booked_row_def)
qed

text \<open>
  C3, as stated, fails for a spot that exists and is not available: the error is the 400
  ``not available'' error, not the 404 raised for a spot that does not exist.
\<close>

theorem makeReservation_inactive_counterexample:
  "makeReservation node 1893456000000 True
     (ann ''2030-01-01T10:00:00.000Z'' ''2030-01-01T12:00:00.000Z'') closed_world
   = (Inl (ReservationError ''Parking spot is not available for reservations'' 400), closed_world)"
  by (simp add: closed_world_def ann_def fresh_world_eq makeReservation_def getSpotById_def)

text \<open>
  C9, as the code has it. Whenever \<open>makeReservation\<close> fails with one of its own errors
  (spot not found, spot not available, invalid interval, past interval, conflict), the
  whole state, in memory and on file, is what it was before the call.
\<close>

theorem makeReservation_rollback:
  "fst (makeReservation js now io rq w) = Inl (ReservationError m c)
     \<longrightarrow> snd (makeReservation js now io rq w) = w"
  by (simp add: makeReservation_eq split: option.splits)

theorem makeReservation_rollback_witness:
  "fst (makeReservation node 1893456000000 True
       (ann ''2030-01-01T11:00:00.000Z'' ''2030-01-01T13:00:00.000Z'') ann_world)
     = Inl (ReservationError ''This spot is already reserved for the requested time period'' 409)
   \<and> snd (makeReservation node 1893456000000 True
       (ann ''2030-01-01T11:00:00.000Z'' ''2030-01-01T13:00:00.000Z'') ann_world) = ann_world"
proof -
  have ov: "hasOverlappingReservation 1 ''2030-01-01T11:00:00.000Z'' ''2030-01-01T13:00:00.000Z''
          (db ann_world)"
    by (simp add: ann_world_eq hasOverlappingReservation_def ann_row_def)
  have e: "fst (makeReservation node 1893456000000 True
       (ann ''2030-01-01T11:00:00.000Z'' ''2030-01-01T13:00:00.000Z'') ann_world)
     = Inl (ReservationError ''This spot is already reserved for the requested time period'' 409)"
    unfolding makeReservation_eq using ov
    by (simp add: ann_def getSpotById_ann node_parse_evals date_ge_def date_lt_def)
  with makeReservation_rollback [where js = node and now = 1893456000000 and io = True
      and rq = "ann ''2030-01-01T11:00:00.000Z'' ''2030-01-01T13:00:00.000Z''" and w = ann_world
      and m = "''This spot is already reserved for the requested time period''" and c = 409]
  show ?thesis by simp
qed

text \<open>
  C9, as stated, fails for a storage fault: when the write of the database file fails,
  \<open>makeReservation\<close> fails with that error after the INSERT, and the new row stays in the
  table in memory.
\<close>

theorem makeReservation_fault_counterexample:
  "fst (makeReservation node 1893456000000 False
          (ann ''2030-01-01T10:00:00.000Z'' ''2030-01-01T12:00:00.000Z'') fresh_world) = Inl FsError
   \<and> reservations (db (snd (makeReservation node 1893456000000 False
          (ann ''2030-01-01T10:00:00.000Z'' ''2030-01-01T12:00:00.000Z'') fresh_world)))
     = [\<lparr>res_id = 1, spot_id = 1, customer_name = ''Ann'', customer_email = ''ann@example.com'',
         start_time = ''2030-01-01T10:00:00.000Z'', end_time = ''2030-01-01T12:00:00.000Z'',
         created_at = ''2030-01-01T00:00:00.000Z''\<rparr>]
   \<and> reservations (db fresh_world) = []"
  by (simp add: ann_def fresh_world_eq seeded_spots_def eval_defs)

lemma deleteReservation_absent:
  assumes "\<forall>r \<in> set (reservations (db w)). res_id r \<noteq> i"
  shows "deleteReservation io i w = (Inr False, w)"
proof -
  have "filter (\<lambda>r. res_id r = i) (reservations (db w)) = []"
    using assms by (simp add: filter_empty_conv)
  moreover have "filter (\<lambda>r. res_id r \<noteq> i) (reservations (db w)) = reservations (db w)"
    using assms by (simp add: filter_id_conv)
  ultimately show ?thesis by (simp add: deleteReservation_def Let_def)
qed

lemma deleteReservation_present:
  assumes "\<exists>r \<in> set (reservations (db w)). res_id r = i"
  shows "deleteReservation io i w =
     (if io
      then (Inr True,
            w\<lparr>db := (db w)\<lparr>reservations := filter (\<lambda>r. res_id r \<noteq> i) (reservations (db w))\<rparr>,
              disk := Some ((db w)\<lparr>reservations := filter (\<lambda>r. res_id r \<noteq> i) (reservations (db w))\<rparr>)\<rparr>)
      else (Inl FsError,
            w\<lparr>db := (db w)\<lparr>reservations := filter (\<lambda>r. res_id r \<noteq> i) (reservations (db w))\<rparr>\<rparr>))"
proof -
  have "filter (\<lambda>r. res_id r = i) (reservations (db w)) \<noteq> []"
    using assms by (simp add: filter_empty_conv)
  then show ?thesis by (simp add: deleteReservation_def Let_def saveDatabase_def)
qed

lemma length_filter_distinct_key:
  "distinct (map f xs) \<Longrightarrow> x \<in> set xs \<Longrightarrow> Suc (length (filter (\<lambda>r. f r \<noteq> f x) xs)) = length xs"
proof (induction xs)
  case Nil
  then show ?case by simp
next
  case (Cons a xs)
  show ?case
  proof (cases "a = x")
    case True
    then have "\<forall>r \<in> set xs. f r \<noteq> f x" using Cons.prems by (metis distinct.simps(2) image_eqI list.simps(9) set_map)
    then have "filter (\<lambda>r. f r \<noteq> f x) xs = xs" by (simp add: filter_id_conv)
    with True show ?thesis by simp
  next
    case False
    then have "x \<in> set xs" "f a \<noteq> f x" using Cons.prems by auto
    then show ?thesis using Cons by simp
  qed
qed

text \<open>
  C8. \<open>cancelReservation\<close> fails with the 404 error ``Reservation not found'' and leaves
  the state as it was when no stored reservation has the id. Otherwise the DELETE removes
  from the table the rows with that id and no other row (one row when the ids are
  distinct, as the primary key makes them); there is no soft delete. When the database
  file can be written the call returns and the file holds the table without the row. A
  second cancel of the same id fails with the 404 error.
\<close>

theorem cancelReservation_hard_delete:
  "((\<forall>r \<in> set (reservations (db w)). res_id r \<noteq> i) \<longrightarrow>
      cancelReservation io i w = (Inl (ReservationError ''Reservation not found'' 404), w))
   \<and> ((\<exists>r \<in> set (reservations (db w)). res_id r = i) \<longrightarrow>
        reservations (db (snd (cancelReservation io i w)))
          = filter (\<lambda>r. res_id r \<noteq> i) (reservations (db w))
      \<and> (distinct (map res_id (reservations (db w))) \<longrightarrow>
           Suc (length (reservations (db (snd (cancelReservation io i w)))))
             = length (reservations (db w)))
      \<and> (io \<longrightarrow> fst (cancelReservation io i w) = Inr ()
             \<and> disk (snd (cancelReservation io i w)) = Some (db (snd (cancelReservation io i w))))
      \<and> cancelReservation io_again i (snd (cancelReservation io i w))
          = (Inl (ReservationError ''Reservation not found'' 404), snd (cancelReservation io i w)))"
proof (intro conjI impI)
  assume "\<forall>r \<in> set (reservations (db w)). res_id r \<noteq> i"
  then show "cancelReservation io i w = (Inl (ReservationError ''Reservation not found'' 404), w)"
    by (simp add: cancelReservation_def deleteReservation_absent)
next
  assume ex: "\<exists>r \<in> set (reservations (db w)). res_id r = i"
  show tbl: "reservations (db (snd (cancelReservation io i w)))
          = filter (\<lambda>r. res_id r \<noteq> i) (reservations (db w))"
    by (simp add: cancelReservation_def deleteReservation_present [OF ex])
  have "\<forall>r \<in> set (reservations (db (snd (cancelReservation io i w)))). res_id r \<noteq> i"
    by (simp add: tbl)
  then show "cancelReservation io_again i (snd (cancelReservation io i w))
          = (Inl (ReservationError ''Reservation not found'' 404), snd (cancelReservation io i w))"
    by (simp add: cancelReservation_def deleteReservation_absent)
  {
    assume d: "distinct (map res_id (reservations (db w)))"
    from ex obtain x where x: "x \<in> set (reservations (db w))" "res_id x = i" by auto
    show "Suc (length (reservations (db (snd (cancelReservation io i w)))))
             = length (reservations (db w))"
      using length_filter_distinct_key [OF d x(1)] x(2) by (simp add: tbl)
  }
  {
    assume io
    then show "fst (cancelReservation io i w) = Inr ()"
      by (simp add: cancelReservation_def deleteReservation_present [OF ex])
    from \<open>io\<close> show "disk (snd (cancelReservation io i w)) = Some (db (snd (cancelReservation io i w)))"
      by (simp add: cancelReservation_def deleteReservation_present [OF ex])
  }
qed

theorem cancelReservation_hard_delete_witness:
  "cancelReservation True 7 ann_world = (Inl (ReservationError ''Reservation not found'' 404), ann_world)
   \<and> reservations (db ann_world) = [ann_row]
   \<and> reservations (db (snd (cancelReservation True 1 ann_world))) = []
   \<and> fst (cancelReservation True 1 ann_world) = Inr ()
   \<and> fst (cancelReservation True 1 (snd (cancelReservation True 1 ann_world)))
       = Inl (ReservationError ''Reservation not found'' 404)"
proof -
  have rs: "reservations (db ann_world) = [ann_row]"
    by (simp add: ann_world_eq)
  have absent: "\<forall>r \<in> set (reservations (db ann_world)). res_id r \<noteq> 7"
    by (simp add: rs ann_row_def)
  have present: "\<exists>r \<in> set (reservations (db ann_world)). res_id r = 1"
    by (simp add: rs ann_row_def)
  have d: "distinct (map res_id (reservations (db ann_world)))"
    by (simp add: rs)
  from cancelReservation_hard_delete [where w = ann_world and i = 7 and io = True] absent
  have a: "cancelReservation True 7 ann_world
      = (Inl (ReservationError ''Reservation not found'' 404), ann_world)"
    by blast
  from cancelReservation_hard_delete [where w = ann_world and i = 1 and io = True and io_again = True]
    present d
  have b: "reservations (db (snd (cancelReservation True 1 ann_world)))
          = filter (\<lambda>r. res_id r \<noteq> 1) (reservations (db ann_world))"
    and c: "fst (cancelReservation True 1 ann_world) = Inr ()"
    and e: "cancelReservation True 1 (snd (cancelReservation True 1 ann_world))
          = (Inl (ReservationError ''Reservation not found'' 404), snd (cancelReservation True 1 ann_world))"
    by blast+
  from b have b': "reservations (db (snd (cancelReservation True 1 ann_world))) = []"
    by (simp add: rs ann_row_def)
  from a rs b' c e show ?thesis by simp
qed

lemma getIdempotencyRecord_Some_key:
  "getIdempotencyRecord k t = Some r \<Longrightarrow> r \<in> set (idempotency_keys t) \<and> key r = k"
  by (auto simp: getIdempotencyRecord_def find_Some_iff)

lemma key_world_eq:
  "key_world =
     \<lparr>db = \<lparr>car_park_spots = seeded_spots, car_park_spots_seq = 20, reservations = [],
             reservations_seq = 0, idempotency_keys =
               [\<lparr>key = ''key-1'', response_status = 201, response_body = ''{}'',
                 key_created_at = ''2030-01-01T00:00:00.000Z''\<rparr>]\<rparr>,
      disk = Some \<lparr>car_park_spots = seeded_spots, car_park_spots_seq = 20, reservations = [],
             reservations_seq = 0, idempotency_keys =
               [\<lparr>key = ''key-1'', response_status = 201, response_body = ''{}'',
                 key_created_at = ''2030-01-01T00:00:00.000Z''\<rparr>]\<rparr>\<rparr>"
  by (simp add: key_world_def saveIdempotencyRecord_def saveDatabase_def node_format_evals fresh_world_eq)

text \<open>
  C4. \<open>saveIdempotencyRecord\<close> is insert-if-absent: when a record for the key exists, the
  INSERT fails with the constraint error of the primary key and the state is left as it
  was; and no call of \<open>saveIdempotencyRecord\<close>, for whatever key, status and body, changes
  the record that \<open>getIdempotencyRecord\<close> returns for that key.
\<close>

theorem saveIdempotencyRecord_insert_if_absent:
  "getIdempotencyRecord k (db w) = Some r \<longrightarrow>
     saveIdempotencyRecord js now io k st bd w
       = (Inl (SqliteError ''UNIQUE constraint failed: idempotency_keys.key''), w)
     \<and> getIdempotencyRecord k (db (snd (saveIdempotencyRecord js now_b io_again k_b st_b bd_b w)))
         = Some r"
proof (intro impI conjI)
  assume r: "getIdempotencyRecord k (db w) = Some r"
  from getIdempotencyRecord_Some_key [OF r]
  have ex: "\<exists>x \<in> set (idempotency_keys (db w)). key x = k" by auto
  then show "saveIdempotencyRecord js now io k st bd w
       = (Inl (SqliteError ''UNIQUE constraint failed: idempotency_keys.key''), w)"
    by (simp add: saveIdempotencyRecord_def)
  show "getIdempotencyRecord k (db (snd (saveIdempotencyRecord js now_b io_again k_b st_b bd_b w)))
         = Some r"
    using r by (simp add: saveIdempotencyRecord_def saveDatabase_def getIdempotencyRecord_def
        find_append_conv)
qed


theorem saveIdempotencyRecord_insert_if_absent_witness:
  "getIdempotencyRecord ''key-1'' (db key_world)
     = Some \<lparr>key = ''key-1'', response_status = 201, response_body = ''{}'',
             key_created_at = ''2030-01-01T00:00:00.000Z''\<rparr>
   \<and> saveIdempotencyRecord node 1893456000999 True ''key-1'' 409 ''null'' key_world
       = (Inl (SqliteError ''UNIQUE constraint failed: idempotency_keys.key''), key_world)
   \<and> getIdempotencyRecord ''key-1''
        (db (snd (saveIdempotencyRecord node 1893456000999 True ''key-2'' 409 ''null'' key_world)))
       = Some \<lparr>key = ''key-1'', response_status = 201, response_body = ''{}'',
               key_created_at = ''2030-01-01T00:00:00.000Z''\<rparr>"
proof -
  have r: "getIdempotencyRecord ''key-1'' (db key_world)
     = Some \<lparr>key = ''key-1'', response_status = 201, response_body = ''{}'',
             key_created_at = ''2030-01-01T00:00:00.000Z''\<rparr>"
    by (simp add: key_world_eq getIdempotencyRecord_def)
  from saveIdempotencyRecord_insert_if_absent [where k = "''key-1''" and w = key_world
      and js = node and now = 1893456000999 and io = True and st = 409 and bd = "''null''"
      and now_b = 1893456000999 and io_again = True and k_b = "''key-2''" and st_b = 409
      and bd_b = "''null''"] r
  show ?thesis by blast
qed

section \<open>Reachable states\<close>

lemma cancelReservation_InrD:
  assumes "cancelReservation io i w = (Inr (), w')"
  shows "reservations (db w') = filter (\<lambda>r. res_id r \<noteq> i) (reservations (db w))"
proof (cases "\<exists>r \<in> set (reservations (db w)). res_id r = i")
  case True
  from deleteReservation_present [OF True, of io] assms show ?thesis
    by (auto simp: cancelReservation_def split: if_splits)
next
  case False
  then have "deleteReservation io i w = (Inr False, w)"
    by (simp add: deleteReservation_absent)
  with assms show ?thesis by (simp add: cancelReservation_def)
qed

lemma text_disjoint_book:
  assumes inv: "text_disjoint (reservations t)"
    and free: "\<not> hasOverlappingReservation (spotId rq) (startTime rq) (endTime rq) t"
  shows "text_disjoint (reservations (booked_tables js now rq t))"
proof -
  let ?new = "booked_row js now rq t"
  have old: "\<forall>r \<in> set (reservations t). spot_id r = spotId rq \<longrightarrow>
      \<not> (start_time r < endTime rq \<and> end_time r > startTime rq)"
    using free by (auto simp: hasOverlappingReservation_iff)
  have new: "spot_id ?new = spotId rq" "start_time ?new = startTime rq" "end_time ?new = endTime rq"
    by (simp_all add: booked_row_def)
  show ?thesis
    unfolding text_disjoint_def booked_tables_def
  proof (intro ballI impI)
    fix r1 r2
    assume r1: "r1 \<in> set (reservations (t\<lparr>reservations := reservations t @ [?new],
                              reservations_seq := fresh_id t\<rparr>))"
      and r2: "r2 \<in> set (reservations (t\<lparr>reservations := reservations t @ [?new],
                              reservations_seq := fresh_id t\<rparr>))"
      and ne: "r1 \<noteq> r2" and same: "spot_id r1 = spot_id r2"
    from r1 have c1: "r1 \<in> set (reservations t) \<or> r1 = ?new" by auto
    from r2 have c2: "r2 \<in> set (reservations t) \<or> r2 = ?new" by auto
    show "\<not> (start_time r1 < end_time r2 \<and> end_time r1 > start_time r2)"
    proof (cases "r1 = ?new")
      case True
      with ne c2 have "r2 \<in> set (reservations t)" by auto
      moreover from True same new have "spot_id r2 = spotId rq" by simp
      ultimately have "\<not> (start_time r2 < endTime rq \<and> end_time r2 > startTime rq)"
        using old by blast
      with True new show ?thesis by auto
    next
      case False
      with c1 have in1: "r1 \<in> set (reservations t)" by simp
      show ?thesis
      proof (cases "r2 = ?new")
        case True
        with same new have "spot_id r1 = spotId rq" by simp
        with in1 old have "\<not> (start_time r1 < endTime rq \<and> end_time r1 > startTime rq)"
          by blast
        with True new show ?thesis by auto
      next
        case False
        with c2 have "r2 \<in> set (reservations t)" by simp
        with in1 ne same inv show ?thesis unfolding text_disjoint_def by blast
      qed
    qed
  qed
qed

lemma reachable_text_disjoint:
  assumes "reachable js w0 w" and "text_disjoint (reservations (db w0))"
  shows "text_disjoint (reservations (db w))"
  using assms
proof (induction rule: reachable.induct)
  case start
  then show ?case by simp
next
  case (book w now io rq resp w')
  from makeReservation_InrD [OF book.hyps(2)]
  have free: "\<not> hasOverlappingReservation (spotId rq) (startTime rq) (endTime rq) (db w)"
    and w': "db w' = booked_tables js now rq (db w)"
    by auto
  from text_disjoint_book [OF book.IH [OF book.prems] free] w' show ?case by simp
next
  case (cancel w io i w')
  from cancelReservation_InrD [OF cancel.hyps(2)] cancel.IH [OF cancel.prems]
  show ?case by (auto simp: text_disjoint_def)
qed

lemma reachable_distinct_ids:
  assumes "reachable js w0 w" and "distinct (map res_id (reservations (db w0)))"
  shows "distinct (map res_id (reservations (db w)))"
  using assms
proof (induction rule: reachable.induct)
  case start
  then show ?case by simp
next
  case (book w now io rq resp w')
  from makeReservation_InrD [OF book.hyps(2)]
  have w': "db w' = booked_tables js now rq (db w)" by auto
  have "\<forall>r \<in> set (reservations (db w)). res_id r \<noteq> fresh_id (db w)"
    using fresh_id_greater [of _ "db w"] by force
  then have "res_id (booked_row js now rq (db w)) \<notin> res_id ` set (reservations (db w))"
    by (auto simp: booked_row_def)
  with book.IH [OF book.prems] show ?case by (simp add: w' booked_tables_def)
next
  case (cancel w io i w')
  from cancelReservation_InrD [OF cancel.hyps(2)] cancel.IH [OF cancel.prems]
  show ?case by (simp add: distinct_map_filter)
qed

lemma book_ann_late:
  "makeReservation node 1893456000000 True ann_late fresh_world =
     (Inr \<lparr>resp_id = 1, resp_spotId = 1, resp_spotNumber = ''A1'', resp_customerName = ''Ann'',
           resp_customerEmail = ''ann@example.com'', resp_startTime = ''2030-01-01T10:00:00.000Z'',
           resp_endTime = ''2030-01-01T12:00:00.500Z'', resp_createdAt = ''2030-01-01T00:00:00.000Z''\<rparr>,
      late_world)"
proof -
  have "fst (makeReservation node 1893456000000 True ann_late fresh_world) =
     Inr \<lparr>resp_id = 1, resp_spotId = 1, resp_spotNumber = ''A1'', resp_customerName = ''Ann'',
           resp_customerEmail = ''ann@example.com'', resp_startTime = ''2030-01-01T10:00:00.000Z'',
           resp_endTime = ''2030-01-01T12:00:00.500Z'', resp_createdAt = ''2030-01-01T00:00:00.000Z''\<rparr>"
    unfolding makeReservation_eq
    by (simp add: ann_late_def getSpotById_fresh node_parse_evals node_format_evals date_ge_def
        date_lt_def hasOverlappingReservation_def response_of_def booked_row_def fresh_id_def)
       (simp add: fresh_world_eq)
  then show ?thesis by (simp add: late_world_def prod_eq_iff)
qed

lemma late_world_eq:
  "late_world =
     \<lparr>db = \<lparr>car_park_spots = seeded_spots, car_park_spots_seq = 20,
             reservations = [\<lparr>res_id = 1, spot_id = 1, customer_name = ''Ann'',
               customer_email = ''ann@example.com'', start_time = ''2030-01-01T10:00:00.000Z'',
               end_time = ''2030-01-01T12:00:00.500Z'', created_at = ''2030-01-01T00:00:00.000Z''\<rparr>],
             reservations_seq = 1, idempotency_keys = []\<rparr>,
      disk = Some \<lparr>car_park_spots = seeded_spots, car_park_spots_seq = 20,
             reservations = [\<lparr>res_id = 1, spot_id = 1, customer_name = ''Ann'',
               customer_email = ''ann@example.com'', start_time = ''2030-01-01T10:00:00.000Z'',
               end_time = ''2030-01-01T12:00:00.500Z'', created_at = ''2030-01-01T00:00:00.000Z''\<rparr>],
             reservations_seq = 1, idempotency_keys = []\<rparr>\<rparr>"
  unfolding late_world_def makeReservation_eq
  by (simp add: ann_late_def getSpotById_fresh node_parse_evals node_format_evals date_ge_def
      date_lt_def hasOverlappingReservation_def booked_tables_def booked_row_def fresh_id_def)
     (simp add: fresh_world_eq)

lemma book_bob:
  "makeReservation node 1893456000000 True bob late_world =
     (Inr \<lparr>resp_id = 2, resp_spotId = 1, resp_spotNumber = ''A1'', resp_customerName = ''Bob'',
           resp_customerEmail = ''bob@example.com'', resp_startTime = ''2030-01-01T12:00:00Z'',
           resp_endTime = ''2030-01-01T14:00:00Z'', resp_createdAt = ''2030-01-01T00:00:00.000Z''\<rparr>,
      two_bookings)"
proof -
  have spot: "getSpotById 1 (db late_world)
      = Some \<lparr>sp_id = 1, spot_number = ''A1'', floor_no = 1, is_available = 1\<rparr>"
    by (simp add: late_world_eq seeded_spots_def getSpotById_def)
  have free: "\<not> hasOverlappingReservation 1 ''2030-01-01T12:00:00Z'' ''2030-01-01T14:00:00Z''
      (db late_world)"
    by (simp add: late_world_eq hasOverlappingReservation_def)
  have fresh: "fresh_id (db late_world) = 2"
    by (simp add: late_world_eq fresh_id_def)
  have "fst (makeReservation node 1893456000000 True bob late_world) =
     Inr \<lparr>resp_id = 2, resp_spotId = 1, resp_spotNumber = ''A1'', resp_customerName = ''Bob'',
           resp_customerEmail = ''bob@example.com'', resp_startTime = ''2030-01-01T12:00:00Z'',
           resp_endTime = ''2030-01-01T14:00:00Z'', resp_createdAt = ''2030-01-01T00:00:00.000Z''\<rparr>"
    unfolding makeReservation_eq using free fresh
    by (simp add: bob_def spot node_parse_evals node_format_evals date_ge_def date_lt_def
        response_of_def booked_row_def)
  then show ?thesis by (simp add: two_bookings_def prod_eq_iff)
qed

text \<open>
  C1 fails on the code. From the state of a first start, two bookings of spot 1 both
  succeed, and the stored intervals intersect as instants: the first runs from 10:00:00.000
  to 12:00:00.500, the second from 12:00:00 to 14:00:00. The overlap test compares the
  texts, and \<open>2030-01-01T12:00:00.500Z\<close> is below \<open>2030-01-01T12:00:00Z\<close> as a text. What
  holds in every reachable state is \<open>text_disjoint\<close> (lemma \<open>reachable_text_disjoint\<close>).
\<close>

theorem overlapping_instants_stored:
  "reachable node fresh_world two_bookings
   \<and> reservations (db fresh_world) = []
   \<and> map (\<lambda>r. (res_id r, spot_id r, start_time r, end_time r)) (reservations (db two_bookings))
       = [(1, 1, ''2030-01-01T10:00:00.000Z'', ''2030-01-01T12:00:00.500Z''),
          (2, 1, ''2030-01-01T12:00:00Z'', ''2030-01-01T14:00:00Z'')]
   \<and> date_lt (isoParse ''2030-01-01T10:00:00.000Z'') (isoParse ''2030-01-01T14:00:00Z'')
   \<and> date_lt (isoParse ''2030-01-01T12:00:00Z'') (isoParse ''2030-01-01T12:00:00.500Z'')"
proof -
  have q: "isoParse ''2030-01-01T10:00:00.000Z'' = Some 1893492000000"
    "isoParse ''2030-01-01T12:00:00.500Z'' = Some 1893499200500"
    "isoParse ''2030-01-01T12:00:00Z'' = Some 1893499200000"
    "isoParse ''2030-01-01T14:00:00Z'' = Some 1893506400000"
    using node_parse_evals by (simp_all add: node_def)
  have a: "reachable node fresh_world two_bookings"
    using reachable.book [OF reachable.book [OF reachable.start book_ann_late] book_bob] .
  have b: "reservations (db fresh_world) = []"
    by (simp add: fresh_world_eq)
  have free: "\<not> hasOverlappingReservation 1 ''2030-01-01T12:00:00Z'' ''2030-01-01T14:00:00Z''
      (db late_world)"
    by (simp add: late_world_eq hasOverlappingReservation_def)
  have spot: "getSpotById 1 (db late_world)
      = Some \<lparr>sp_id = 1, spot_number = ''A1'', floor_no = 1, is_available = 1\<rparr>"
    by (simp add: late_world_eq seeded_spots_def getSpotById_def)
  have c: "map (\<lambda>r. (res_id r, spot_id r, start_time r, end_time r)) (reservations (db two_bookings))
       = [(1, 1, ''2030-01-01T10:00:00.000Z'', ''2030-01-01T12:00:00.500Z''),
          (2, 1, ''2030-01-01T12:00:00Z'', ''2030-01-01T14:00:00Z'')]"
    unfolding two_bookings_def makeReservation_eq using free
    by (simp add: bob_def spot node_parse_evals date_ge_def date_lt_def booked_tables_def
        booked_row_def)
       (simp add: late_world_eq fresh_id_def)
  have d: "date_lt (isoParse ''2030-01-01T10:00:00.000Z'') (isoParse ''2030-01-01T14:00:00Z'')"
    "date_lt (isoParse ''2030-01-01T12:00:00Z'') (isoParse ''2030-01-01T12:00:00.500Z'')"
    by (simp_all add: q date_lt_def)
  from a b c d show ?thesis by simp
qed

section \<open>Touching intervals\<close>

lemma short_world_eq:
  "short_world =
     \<lparr>db = \<lparr>car_park_spots = seeded_spots, car_park_spots_seq = 20,
             reservations = [\<lparr>res_id = 1, spot_id = 1, customer_name = ''Ann'',
               customer_email = ''ann@example.com'', start_time = ''2030-01-01T10:00:00Z'',
               end_time = ''2030-01-01T12:00:00Z'', created_at = ''2030-01-01T00:00:00.000Z''\<rparr>],
             reservations_seq = 1, idempotency_keys = []\<rparr>,
      disk = Some \<lparr>car_park_spots = seeded_spots, car_park_spots_seq = 20,
             reservations = [\<lparr>res_id = 1, spot_id = 1, customer_name = ''Ann'',
               customer_email = ''ann@example.com'', start_time = ''2030-01-01T10:00:00Z'',
               end_time = ''2030-01-01T12:00:00Z'', created_at = ''2030-01-01T00:00:00.000Z''\<rparr>],
             reservations_seq = 1, idempotency_keys = []\<rparr>\<rparr>"
  unfolding short_world_def makeReservation_eq
  by (simp add: ann_short_def getSpotById_fresh node_parse_evals node_format_evals
      date_ge_def date_lt_def hasOverlappingReservation_def booked_tables_def booked_row_def fresh_id_def)
     (simp add: fresh_world_eq)

lemma book_ann_short:
  "makeReservation node 1893456000000 True ann_short fresh_world =
     (Inr \<lparr>resp_id = 1, resp_spotId = 1, resp_spotNumber = ''A1'', resp_customerName = ''Ann'',
           resp_customerEmail = ''ann@example.com'', resp_startTime = ''2030-01-01T10:00:00Z'',
           resp_endTime = ''2030-01-01T12:00:00Z'', resp_createdAt = ''2030-01-01T00:00:00.000Z''\<rparr>,
      short_world)"
proof -
  have "fst (makeReservation node 1893456000000 True ann_short fresh_world) =
     Inr \<lparr>resp_id = 1, resp_spotId = 1, resp_spotNumber = ''A1'', resp_customerName = ''Ann'',
           resp_customerEmail = ''ann@example.com'', resp_startTime = ''2030-01-01T10:00:00Z'',
           resp_endTime = ''2030-01-01T12:00:00Z'', resp_createdAt = ''2030-01-01T00:00:00.000Z''\<rparr>"
    unfolding makeReservation_eq
    by (simp add: ann_short_def getSpotById_fresh node_parse_evals
        node_format_evals date_ge_def
        date_lt_def hasOverlappingReservation_def response_of_def booked_row_def fresh_id_def)
       (simp add: fresh_world_eq)
  then show ?thesis by (simp add: short_world_def prod_eq_iff)
qed

lemma iso_evals:
  "isoParse ''2030-01-01T10:00:00.000Z'' = Some 1893492000000"
  "isoParse ''2030-01-01T10:00:00Z'' = Some 1893492000000"
  "isoParse ''2030-01-01T12:00:00.500Z'' = Some 1893499200500"
  "isoParse ''2030-01-01T12:00:00.000Z'' = Some 1893499200000"
  "isoParse ''2030-01-01T12:00:00Z'' = Some 1893499200000"
  "isoParse ''2030-01-01T14:00:00.000Z'' = Some 1893506400000"
  "isoParse ''2030-01-01T14:00:00Z'' = Some 1893506400000"
  using node_parse_evals by (simp_all add: node_def)

text \<open>
  C2 fails on the code. On the state of a first start, spot 1 is booked from
  \<open>2030-01-01T10:00:00Z\<close> to \<open>2030-01-01T12:00:00Z\<close>. A request for the same spot from
  \<open>2030-01-01T12:00:00.000Z\<close> to \<open>2030-01-01T14:00:00.000Z\<close> starts at the instant at which the
  stored booking ends, so the two intervals only touch; \<open>hasOverlappingReservation\<close> is true
  all the same and \<open>makeReservation\<close> answers 409 and leaves the state as it was. The test
  \<open>end_time > startTime\<close> compares the texts, and \<open>2030-01-01T12:00:00Z\<close> is above
  \<open>2030-01-01T12:00:00.000Z\<close> as a text. What holds is the characterisation in the order of
  the texts (lemma \<open>hasOverlappingReservation_iff\<close>) and the adjacency of two requests that
  write the shared endpoint as one text (lemma \<open>adjacent_same_text_accepted\<close>).
\<close>

theorem adjacent_booking_refused:
  "makeReservation node 1893456000000 True ann_short fresh_world =
     (Inr \<lparr>resp_id = 1, resp_spotId = 1, resp_spotNumber = ''A1'', resp_customerName = ''Ann'',
           resp_customerEmail = ''ann@example.com'', resp_startTime = ''2030-01-01T10:00:00Z'',
           resp_endTime = ''2030-01-01T12:00:00Z'', resp_createdAt = ''2030-01-01T00:00:00.000Z''\<rparr>,
      short_world)
   \<and> map (\<lambda>r. (res_id r, spot_id r, start_time r, end_time r)) (reservations (db short_world))
       = [(1, 1, ''2030-01-01T10:00:00Z'', ''2030-01-01T12:00:00Z'')]
   \<and> makeReservation node 1893456000000 True bob_next short_world =
       (Inl (ReservationError ''This spot is already reserved for the requested time period'' 409),
        short_world)
   \<and> hasOverlappingReservation 1 ''2030-01-01T12:00:00.000Z'' ''2030-01-01T14:00:00.000Z''
       (db short_world)
   \<and> isoParse ''2030-01-01T12:00:00Z'' = Some 1893499200000
   \<and> isoParse ''2030-01-01T12:00:00.000Z'' = Some 1893499200000
   \<and> \<not> date_lt (isoParse ''2030-01-01T12:00:00.000Z'') (isoParse ''2030-01-01T12:00:00Z'')"
proof -
  have spot: "getSpotById 1 (db short_world)
      = Some \<lparr>sp_id = 1, spot_number = ''A1'', floor_no = 1, is_available = 1\<rparr>"
    by (simp add: short_world_eq seeded_spots_def getSpotById_def)
  have ov: "hasOverlappingReservation 1 ''2030-01-01T12:00:00.000Z'' ''2030-01-01T14:00:00.000Z''
      (db short_world)"
    by (simp add: short_world_eq hasOverlappingReservation_def)
  have rows: "map (\<lambda>r. (res_id r, spot_id r, start_time r, end_time r)) (reservations (db short_world))
       = [(1, 1, ''2030-01-01T10:00:00Z'', ''2030-01-01T12:00:00Z'')]"
    by (simp add: short_world_eq)
  have refused: "makeReservation node 1893456000000 True bob_next short_world =
       (Inl (ReservationError ''This spot is already reserved for the requested time period'' 409),
        short_world)"
    unfolding makeReservation_eq using ov
    by (simp add: bob_next_def spot node_parse_evals date_ge_def date_lt_def)
  have inst: "\<not> date_lt (isoParse ''2030-01-01T12:00:00.000Z'') (isoParse ''2030-01-01T12:00:00Z'')"
    by (simp add: iso_evals date_lt_def)
  from book_ann_short rows refused ov inst iso_evals(4,5) show ?thesis by simp
qed

section \<open>The availability query\<close>

lemma not_in_subquery:
  "sp \<notin> set (map spot_id (filter (\<lambda>r. start_time r < e \<and> end_time r > s) (reservations t)))
     \<longleftrightarrow> \<not> hasOverlappingReservation sp s e t"
  by (auto simp: hasOverlappingReservation_iff)

text \<open>
  What the availability query computes, for every state of the tables and all optional
  arguments: exactly the spots with \<open>is_available = 1\<close>, of the given floor when a floor is
  given, and, when both a start and an end are supplied, without the spots for which
  \<open>hasOverlappingReservation\<close> holds for that start and end, which is the order of the
  timestamp texts; the rows come in the order of floor and spot number, and
  \<open>queryAvailability\<close> projects them. When a bound is missing the result is that of the
  query without bounds. No range is validated: an inverted range gives a result like any
  other. A bound counts as supplied when it passes the truthiness test the code applies,
  that is when it is a string other than the empty one.
\<close>

lemma getAvailableSpots_set:
  "set (getAvailableSpots floor st en t) =
     {spot \<in> set (car_park_spots t).
        is_available spot = 1
        \<and> (\<forall>f. floor = Some f \<longrightarrow> floor_no spot = f)
        \<and> (truthy st \<and> truthy en \<longrightarrow> \<not> hasOverlappingReservation (sp_id spot) (the st) (the en) t)}
   \<and> queryAvailability floor st en t =
       map (\<lambda>spot. \<lparr>av_id = sp_id spot, av_spotNumber = spot_number spot, av_floor = floor_no spot\<rparr>)
         (getAvailableSpots floor st en t)
   \<and> sorted (map (\<lambda>spot. (floor_no spot, spot_number spot)) (getAvailableSpots floor st en t))
   \<and> (\<not> (truthy st \<and> truthy en) \<longrightarrow>
        queryAvailability floor st en t = queryAvailability floor None None t)"
proof (intro conjI)
  show "set (getAvailableSpots floor st en t) =
     {spot \<in> set (car_park_spots t).
        is_available spot = 1
        \<and> (\<forall>f. floor = Some f \<longrightarrow> floor_no spot = f)
        \<and> (truthy st \<and> truthy en \<longrightarrow> \<not> hasOverlappingReservation (sp_id spot) (the st) (the en) t)}"
    unfolding getAvailableSpots_def set_sort not_in_subquery
    by (auto split: option.splits)
  show "queryAvailability floor st en t =
       map (\<lambda>spot. \<lparr>av_id = sp_id spot, av_spotNumber = spot_number spot, av_floor = floor_no spot\<rparr>)
         (getAvailableSpots floor st en t)"
    by (simp add: queryAvailability_def)
  show "sorted (map (\<lambda>spot. (floor_no spot, spot_number spot)) (getAvailableSpots floor st en t))"
    by (simp add: getAvailableSpots_def)
  show "\<not> (truthy st \<and> truthy en) \<longrightarrow>
        queryAvailability floor st en t = queryAvailability floor None None t"
  proof
    assume "\<not> (truthy st \<and> truthy en)"
    moreover have "\<not> (truthy None \<and> truthy None)" by (simp add: truthy_def)
    ultimately show "queryAvailability floor st en t = queryAvailability floor None None t"
      unfolding queryAvailability_def getAvailableSpots_def by (simp only: if_False)
  qed
qed

text \<open>
  C7 fails on the code. In the state where spot 1 is booked from \<open>2030-01-01T10:00:00.000Z\<close>
  to \<open>2030-01-01T12:00:00.500Z\<close>, the query for floor 1 from \<open>2030-01-01T12:00:00Z\<close> to
  \<open>2030-01-01T14:00:00Z\<close> returns spot 1, although the stored reservation intersects the
  queried interval: it starts before the end of the query and ends half a second after its
  start. In the state where spot 1 is booked from \<open>2030-01-01T10:00:00Z\<close> to
  \<open>2030-01-01T12:00:00Z\<close>, the query from \<open>2030-01-01T12:00:00.000Z\<close> to
  \<open>2030-01-01T14:00:00.000Z\<close> leaves spot 1 out, although the reservation ends at the instant
  at which the query starts. The subquery compares the texts of the timestamps. What holds
  is lemma \<open>getAvailableSpots_set\<close>.
\<close>

theorem queryAvailability_offers_booked_spot:
  "map (\<lambda>r. (res_id r, spot_id r, start_time r, end_time r)) (reservations (db late_world))
       = [(1, 1, ''2030-01-01T10:00:00.000Z'', ''2030-01-01T12:00:00.500Z'')]
   \<and> \<lparr>av_id = 1, av_spotNumber = ''A1'', av_floor = 1\<rparr>
       \<in> set (queryAvailability (Some 1) (Some ''2030-01-01T12:00:00Z'')
                (Some ''2030-01-01T14:00:00Z'') (db late_world))
   \<and> date_lt (isoParse ''2030-01-01T10:00:00.000Z'') (isoParse ''2030-01-01T14:00:00Z'')
   \<and> date_lt (isoParse ''2030-01-01T12:00:00Z'') (isoParse ''2030-01-01T12:00:00.500Z'')
   \<and> map (\<lambda>r. (res_id r, spot_id r, start_time r, end_time r)) (reservations (db short_world))
       = [(1, 1, ''2030-01-01T10:00:00Z'', ''2030-01-01T12:00:00Z'')]
   \<and> \<lparr>av_id = 1, av_spotNumber = ''A1'', av_floor = 1\<rparr>
       \<notin> set (queryAvailability (Some 1) (Some ''2030-01-01T12:00:00.000Z'')
                (Some ''2030-01-01T14:00:00.000Z'') (db short_world))
   \<and> \<not> date_lt (isoParse ''2030-01-01T12:00:00.000Z'') (isoParse ''2030-01-01T12:00:00Z'')"
proof -
  have rows: "map (\<lambda>r. (res_id r, spot_id r, start_time r, end_time r)) (reservations (db late_world))
       = [(1, 1, ''2030-01-01T10:00:00.000Z'', ''2030-01-01T12:00:00.500Z'')]"
    "map (\<lambda>r. (res_id r, spot_id r, start_time r, end_time r)) (reservations (db short_world))
       = [(1, 1, ''2030-01-01T10:00:00Z'', ''2030-01-01T12:00:00Z'')]"
    by (simp_all add: late_world_eq short_world_eq)
  have free: "\<not> hasOverlappingReservation 1 ''2030-01-01T12:00:00Z'' ''2030-01-01T14:00:00Z''
      (db late_world)"
    by (simp add: late_world_eq hasOverlappingReservation_def)
  have ov: "hasOverlappingReservation 1 ''2030-01-01T12:00:00.000Z'' ''2030-01-01T14:00:00.000Z''
      (db short_world)"
    by (simp add: short_world_eq hasOverlappingReservation_def)
  have mem: "\<lparr>sp_id = 1, spot_number = ''A1'', floor_no = 1, is_available = 1\<rparr>
      \<in> set (car_park_spots (db late_world))"
    by (simp add: late_world_eq seeded_spots_def)
  have tr: "truthy (Some ''2030-01-01T12:00:00Z'')" "truthy (Some ''2030-01-01T14:00:00Z'')"
    "truthy (Some ''2030-01-01T12:00:00.000Z'')" "truthy (Some ''2030-01-01T14:00:00.000Z'')"
    by (simp_all add: truthy_def)
  note q1 = getAvailableSpots_set [where floor = "Some 1"
      and st = "Some ''2030-01-01T12:00:00Z''" and en = "Some ''2030-01-01T14:00:00Z''"
      and t = "db late_world"]
  note q2 = getAvailableSpots_set [where floor = "Some 1"
      and st = "Some ''2030-01-01T12:00:00.000Z''" and en = "Some ''2030-01-01T14:00:00.000Z''"
      and t = "db short_world"]
  from q1 free mem tr have "\<lparr>sp_id = 1, spot_number = ''A1'', floor_no = 1, is_available = 1\<rparr>
      \<in> set (getAvailableSpots (Some 1) (Some ''2030-01-01T12:00:00Z'')
                (Some ''2030-01-01T14:00:00Z'') (db late_world))"
    by simp
  then have offered: "\<lparr>av_id = 1, av_spotNumber = ''A1'', av_floor = 1\<rparr>
       \<in> set (queryAvailability (Some 1) (Some ''2030-01-01T12:00:00Z'')
                (Some ''2030-01-01T14:00:00Z'') (db late_world))"
    unfolding queryAvailability_def set_map by (rule rev_image_eqI) simp
  have hidden: "\<lparr>av_id = 1, av_spotNumber = ''A1'', av_floor = 1\<rparr>
       \<notin> set (queryAvailability (Some 1) (Some ''2030-01-01T12:00:00.000Z'')
                (Some ''2030-01-01T14:00:00.000Z'') (db short_world))"
  proof
    assume "\<lparr>av_id = 1, av_spotNumber = ''A1'', av_floor = 1\<rparr>
       \<in> set (queryAvailability (Some 1) (Some ''2030-01-01T12:00:00.000Z'')
                (Some ''2030-01-01T14:00:00.000Z'') (db short_world))"
    then obtain spot where spot: "spot \<in> set (getAvailableSpots (Some 1)
          (Some ''2030-01-01T12:00:00.000Z'') (Some ''2030-01-01T14:00:00.000Z'') (db short_world))"
      and one: "sp_id spot = 1"
      unfolding queryAvailability_def set_map by auto
    from q2 spot tr have "\<not> hasOverlappingReservation (sp_id spot) ''2030-01-01T12:00:00.000Z''
        ''2030-01-01T14:00:00.000Z'' (db short_world)"
      by simp
    with ov one show False by simp
  qed
  have inst: "date_lt (isoParse ''2030-01-01T10:00:00.000Z'') (isoParse ''2030-01-01T14:00:00Z'')"
    "date_lt (isoParse ''2030-01-01T12:00:00Z'') (isoParse ''2030-01-01T12:00:00.500Z'')"
    "\<not> date_lt (isoParse ''2030-01-01T12:00:00.000Z'') (isoParse ''2030-01-01T12:00:00Z'')"
    by (simp_all add: iso_evals date_lt_def)
  from rows offered hidden inst show ?thesis by simp
qed

section \<open>The idempotency middleware\<close>

lemma find_None_key:
  "getIdempotencyRecord k t = None \<Longrightarrow> \<not> (\<exists>r \<in> set (idempotency_keys t). key r = k)"
  by (auto simp: getIdempotencyRecord_def find_None_iff)

lemma requireIdempotencyKey_hit:
  assumes "k \<noteq> []" "length k \<le> 255" "getIdempotencyRecord k (db w) = Some r"
  shows "requireIdempotencyKey js now io (Some k) next w =
     (case JSON_parse js (response_body r) of
        None \<Rightarrow> errorHandler (originalJson js) w
      | Some b \<Rightarrow> originalJson js (response_status r) b w)"
  using assms by (simp add: requireIdempotencyKey_def truthy_def Let_def)

lemma requireIdempotencyKey_miss:
  assumes "k \<noteq> []" "length k \<le> 255" "getIdempotencyRecord k (db w) = None"
  shows "requireIdempotencyKey js now io (Some k) next w = next (capturingJson js now io k) w"
  using assms by (simp add: requireIdempotencyKey_def truthy_def Let_def)

lemma capturingJson_miss:
  assumes "getIdempotencyRecord k (db w) = None"
  shows "fst (capturingJson js now io k c b w) = \<lparr>statusCode = c, body = JSON_stringify js b\<rparr>"
    and "getIdempotencyRecord k (db (snd (capturingJson js now io k c b w)))
          = Some \<lparr>key = k, response_status = c, response_body = JSON_stringify js b,
                  key_created_at = Date_toISOString js now\<rparr>"
  using find_None_key [OF assms] assms
  by (simp_all add: capturingJson_def originalJson_def saveIdempotencyRecord_def saveDatabase_def
      getIdempotencyRecord_def find_append_conv)

lemmas json_evals = json_parse_def parse_value.simps parse_elements.simps parse_members.simps
  parse_int_def digit_val_def dq_def bs_def quote_def escape_def show_int_def decimal.simps dig_def
  unescape_def hexval_def hexdig_def

lemma roundtrip_ann_created:
  "JSON_parse node (JSON_stringify node ann_created) = Some ann_created"
  by (simp add: node_def ann_created_def reservation_json_def json_evals)

lemma roundtrip_name_rejected:
  "JSON_parse node (JSON_stringify node name_rejected) = Some name_rejected"
  by (simp add: node_def name_rejected_def json_evals)

lemma example_schema_evals:
  "example_schema (body_of ''Ann'') = Inr (ann ''2030-01-01T10:00:00.000Z'' ''2030-01-01T12:00:00.000Z'')"
  "example_schema (body_of ''Bob'') = Inr \<lparr>spotId = 1, customerName = ''Bob'',
      customerEmail = ''ann@example.com'', startTime = ''2030-01-01T10:00:00.000Z'',
      endTime = ''2030-01-01T12:00:00.000Z''\<rparr>"
  "example_schema (body_of []) = Inl (JArr [JStr ''customerName''])"
  using node_parse_evals
  by (simp_all add: example_schema_def body_of_def ann_def node_def)

lemma book_ann:
  "makeReservation node 1893456000000 True
     (ann ''2030-01-01T10:00:00.000Z'' ''2030-01-01T12:00:00.000Z'') fresh_world =
     (Inr \<lparr>resp_id = 1, resp_spotId = 1, resp_spotNumber = ''A1'', resp_customerName = ''Ann'',
           resp_customerEmail = ''ann@example.com'', resp_startTime = ''2030-01-01T10:00:00.000Z'',
           resp_endTime = ''2030-01-01T12:00:00.000Z'', resp_createdAt = ''2030-01-01T00:00:00.000Z''\<rparr>,
      ann_world)"
proof -
  have "fst (makeReservation node 1893456000000 True
     (ann ''2030-01-01T10:00:00.000Z'' ''2030-01-01T12:00:00.000Z'') fresh_world) =
     Inr \<lparr>resp_id = 1, resp_spotId = 1, resp_spotNumber = ''A1'', resp_customerName = ''Ann'',
           resp_customerEmail = ''ann@example.com'', resp_startTime = ''2030-01-01T10:00:00.000Z'',
           resp_endTime = ''2030-01-01T12:00:00.000Z'', resp_createdAt = ''2030-01-01T00:00:00.000Z''\<rparr>"
    unfolding makeReservation_eq
    by (simp add: ann_def getSpotById_fresh node_parse_evals node_format_evals date_ge_def
        date_lt_def hasOverlappingReservation_def response_of_def booked_row_def fresh_id_def)
       (simp add: fresh_world_eq)
  then show ?thesis by (simp add: ann_world_def prod_eq_iff)
qed

lemma no_key_fresh: "getIdempotencyRecord k (db fresh_world) = None"
  by (simp add: getIdempotencyRecord_def fresh_world_eq)

lemma no_key_ann: "getIdempotencyRecord k (db ann_world) = None"
  by (simp add: getIdempotencyRecord_def ann_world_eq)

lemma first_post_ann:
  "post_reserve node example_schema 1893456000000 True (Some ''key-1'') (body_of ''Ann'') fresh_world
     = capturingJson node 1893456000000 True ''key-1'' 201 ann_created ann_world"
  by (simp add: post_reserve_def requireIdempotencyKey_miss no_key_fresh reserve_handler_def
      example_schema_evals book_ann ann_created_def)

text \<open>
  C5. For a request whose idempotency key is valid (1 to 255 characters) and has a stored
  record, \<open>requireIdempotencyKey\<close> answers with the stored status and the stored body and
  leaves the state as it was, whatever the rest of the route: \<open>next\<close> is not called, so the
  ledger is not reached, and the same holds for \<open>POST /reserve\<close> with any body. The
  middleware sends \<open>JSON.stringify(JSON.parse(response_body))\<close>; the body on the wire is the
  stored text because the stored text is the runtime's own serialisation of a value
  (\<open>response_body r = JSON_stringify js v\<close>) and the runtime parses it back to a value with
  the same serialisation.
\<close>

theorem cache_hit_returns_stored:
  "k \<noteq> [] \<longrightarrow> length k \<le> 255 \<longrightarrow> getIdempotencyRecord k (db w) = Some r \<longrightarrow>
   response_body r = JSON_stringify js v \<longrightarrow> JSON_parse js (JSON_stringify js v) = Some v2 \<longrightarrow>
   JSON_stringify js v2 = JSON_stringify js v \<longrightarrow>
     requireIdempotencyKey js now io (Some k) next w
       = (\<lparr>statusCode = response_status r, body = response_body r\<rparr>, w)
     \<and> post_reserve js schema now io (Some k) reqBody w
       = (\<lparr>statusCode = response_status r, body = response_body r\<rparr>, w)"
  by (simp add: post_reserve_def requireIdempotencyKey_hit originalJson_def)

theorem cache_hit_returns_stored_witness:
  "post_reserve node example_schema 1893456005000 True (Some ''key-1'') (body_of ''Bob'') posted_world
     = (\<lparr>statusCode = 201, body = json_text ann_created\<rparr>, posted_world)
   \<and> fst (post_reserve node example_schema 1893456000000 True (Some ''key-1'') (body_of ''Ann'')
            fresh_world)
     = \<lparr>statusCode = 201, body = json_text ann_created\<rparr>"
proof -
  have first: "fst (post_reserve node example_schema 1893456000000 True (Some ''key-1'')
      (body_of ''Ann'') fresh_world) = \<lparr>statusCode = 201, body = json_text ann_created\<rparr>"
    unfolding first_post_ann
    using capturingJson_miss(1) [OF no_key_ann, of node 1893456000000 True "''key-1''" 201 ann_created]
    by (simp add: node_def)
  have r: "getIdempotencyRecord ''key-1'' (db posted_world)
      = Some \<lparr>key = ''key-1'', response_status = 201,
              response_body = JSON_stringify node ann_created,
              key_created_at = Date_toISOString node 1893456000000\<rparr>"
    unfolding posted_world_def first_post_ann
    by (rule capturingJson_miss(2) [OF no_key_ann])
  have s: "JSON_stringify node ann_created = json_text ann_created"
    by (simp add: node_def)
  from cache_hit_returns_stored [where k = "''key-1''" and w = posted_world and js = node
      and v = ann_created and ?v2.0 = ann_created and now = 1893456005000 and io = True
      and schema = example_schema and reqBody = "body_of ''Bob''"
      and r = "\<lparr>key = ''key-1'', response_status = 201,
              response_body = JSON_stringify node ann_created,
              key_created_at = Date_toISOString node 1893456000000\<rparr>"]
    r roundtrip_ann_created
  have "post_reserve node example_schema 1893456005000 True (Some ''key-1'') (body_of ''Bob'')
      posted_world = (\<lparr>statusCode = 201, body = JSON_stringify node ann_created\<rparr>, posted_world)"
    by simp
  with first s show ?thesis by simp
qed

text \<open>
  C10. For a valid key: when a record is stored under the key, the response of
  \<open>POST /reserve\<close> is the same for any two bodies (and any schema, clock and disk). When no
  record is stored and the body fails the schema, the response has status 400, and the
  wrapper that the middleware installed before the handler ran has stored it under the key;
  a later request with the same key, whatever its body, receives that stored response and
  leaves the state as it is (given that the runtime parses the stored text back to a value
  with the same serialisation).
\<close>

theorem cached_response_ignores_body:
  "k \<noteq> [] \<longrightarrow> length k \<le> 255 \<longrightarrow>
     (getIdempotencyRecord k (db w) = Some r \<longrightarrow>
        post_reserve js schema now io (Some k) body1 w
          = post_reserve js schema_b now_b io_b (Some k) body2 w)
     \<and> (getIdempotencyRecord k (db w) = None \<longrightarrow> schema bad = Inl issues \<longrightarrow>
          statusCode (fst (post_reserve js schema now io (Some k) bad w)) = 400
        \<and> body (fst (post_reserve js schema now io (Some k) bad w))
            = JSON_stringify js (JObj [(''success'', JBool False),
                (''error'', JStr ''Invalid request body''), (''details'', issues)])
        \<and> getIdempotencyRecord k (db (snd (post_reserve js schema now io (Some k) bad w)))
            = Some \<lparr>key = k, response_status = 400,
                    response_body = body (fst (post_reserve js schema now io (Some k) bad w)),
                    key_created_at = Date_toISOString js now\<rparr>
        \<and> (JSON_parse js (body (fst (post_reserve js schema now io (Some k) bad w))) = Some v2 \<longrightarrow>
             JSON_stringify js v2 = body (fst (post_reserve js schema now io (Some k) bad w)) \<longrightarrow>
             post_reserve js schema_b now_b io_b (Some k) good
                 (snd (post_reserve js schema now io (Some k) bad w))
               = (fst (post_reserve js schema now io (Some k) bad w),
                  snd (post_reserve js schema now io (Some k) bad w))))"
proof (intro impI conjI)
  assume k: "k \<noteq> []" "length k \<le> 255"
  {
    assume "getIdempotencyRecord k (db w) = Some r"
    then show "post_reserve js schema now io (Some k) body1 w
          = post_reserve js schema_b now_b io_b (Some k) body2 w"
      using k by (simp add: post_reserve_def requireIdempotencyKey_hit)
  }
  assume miss: "getIdempotencyRecord k (db w) = None" and bad: "schema bad = Inl issues"
  let ?e = "JObj [(''success'', JBool False), (''error'', JStr ''Invalid request body''),
                (''details'', issues)]"
  have first: "post_reserve js schema now io (Some k) bad w = capturingJson js now io k 400 ?e w"
    using k miss bad
    by (simp add: post_reserve_def requireIdempotencyKey_miss reserve_handler_def)
  show st: "statusCode (fst (post_reserve js schema now io (Some k) bad w)) = 400"
    by (simp add: first capturingJson_miss(1) [OF miss])
  show bd: "body (fst (post_reserve js schema now io (Some k) bad w)) = JSON_stringify js ?e"
    by (simp add: first capturingJson_miss(1) [OF miss])
  show rec: "getIdempotencyRecord k (db (snd (post_reserve js schema now io (Some k) bad w)))
            = Some \<lparr>key = k, response_status = 400,
                    response_body = body (fst (post_reserve js schema now io (Some k) bad w)),
                    key_created_at = Date_toISOString js now\<rparr>"
    by (simp add: first capturingJson_miss [OF miss])
  let ?p = "post_reserve js schema now io (Some k) bad w"
  assume parse: "JSON_parse js (body (fst ?p)) = Some v2"
    and same: "JSON_stringify js v2 = body (fst ?p)"
  have "post_reserve js schema_b now_b io_b (Some k) good (snd ?p)
      = requireIdempotencyKey js now_b io_b (Some k)
          (reserve_handler js schema_b now_b io_b good) (snd ?p)"
    by (simp only: post_reserve_def)
  also have "\<dots> = (\<lparr>statusCode = 400, body = body (fst ?p)\<rparr>, snd ?p)"
    by (simp add: requireIdempotencyKey_hit [OF k rec] parse same originalJson_def)
  also have "\<lparr>statusCode = 400, body = body (fst ?p)\<rparr> = fst ?p"
    using st by (cases "fst ?p") simp
  finally show "post_reserve js schema_b now_b io_b (Some k) good (snd ?p) = (fst ?p, snd ?p)" .
qed


theorem cached_response_ignores_body_witness:
  "fst (post_reserve node example_schema 1893456000000 True (Some ''key-1'') (body_of [])
          fresh_world)
     = \<lparr>statusCode = 400, body = json_text name_rejected\<rparr>
   \<and> post_reserve node example_schema 1893456005000 True (Some ''key-1'') (body_of ''Ann'')
       rejected_world
     = (\<lparr>statusCode = 400, body = json_text name_rejected\<rparr>, rejected_world)
   \<and> post_reserve node example_schema 1893456005000 True (Some ''key-1'') (body_of ''Bob'')
       rejected_world
     = post_reserve node example_schema 1893456005000 True (Some ''key-1'') (body_of ''Ann'')
       rejected_world"
proof -
  let ?p = "post_reserve node example_schema 1893456000000 True (Some ''key-1'') (body_of [])
          fresh_world"
  note inst1 = cached_response_ignores_body [where k = "''key-1''" and w = fresh_world and js = node
      and schema = example_schema and now = 1893456000000 and io = True and bad = "body_of []"
      and issues = "JArr [JStr ''customerName'']" and ?v2.0 = name_rejected
      and schema_b = example_schema and now_b = 1893456005000 and io_b = True
      and good = "body_of ''Ann''"]
  have k: "''key-1'' \<noteq> []" "length ''key-1'' \<le> 255" by simp_all
  from inst1 k no_key_fresh example_schema_evals(3)
  have st: "statusCode (fst ?p) = 400"
    and bd: "body (fst ?p) = JSON_stringify node name_rejected"
    and rec: "getIdempotencyRecord ''key-1'' (db (snd ?p))
            = Some \<lparr>key = ''key-1'', response_status = 400, response_body = body (fst ?p),
                    key_created_at = Date_toISOString node 1893456000000\<rparr>"
    and retry: "JSON_parse node (body (fst ?p)) = Some name_rejected \<longrightarrow>
             JSON_stringify node name_rejected = body (fst ?p) \<longrightarrow>
             post_reserve node example_schema 1893456005000 True (Some ''key-1'') (body_of ''Ann'')
                 (snd ?p) = (fst ?p, snd ?p)"
    unfolding name_rejected_def by blast+
  have s: "JSON_stringify node name_rejected = json_text name_rejected"
    by (simp add: node_def)
  from st bd s have a: "fst ?p = \<lparr>statusCode = 400, body = json_text name_rejected\<rparr>"
    by (cases "fst ?p") simp
  from retry bd roundtrip_name_rejected
  have b: "post_reserve node example_schema 1893456005000 True (Some ''key-1'') (body_of ''Ann'')
                 (snd ?p) = (fst ?p, snd ?p)"
    by simp
  note inst2 = cached_response_ignores_body [where k = "''key-1''" and w = rejected_world
      and js = node and schema = example_schema and now = 1893456005000 and io = True
      and ?body1.0 = "body_of ''Bob''" and ?body2.0 = "body_of ''Ann''"
      and schema_b = example_schema and now_b = 1893456005000 and io_b = True
      and r = "\<lparr>key = ''key-1'', response_status = 400, response_body = body (fst ?p),
                    key_created_at = Date_toISOString node 1893456000000\<rparr>"]
  from inst2 k rec
  have c: "post_reserve node example_schema 1893456005000 True (Some ''key-1'') (body_of ''Bob'')
       rejected_world
     = post_reserve node example_schema 1893456005000 True (Some ''key-1'') (body_of ''Ann'')
       rejected_world"
    unfolding rejected_world_def by blast
  from a b c show ?thesis by (simp add: rejected_world_def)
qed

section \<open>The printed timestamps are ordered like the instants\<close>

text \<open>
  For time values from the epoch to the end of the year 9999, \<open>isoFormat\<close> prints fixed-width
  fields from the year down to the millisecond, so the order of the texts is the order of
  the time values.
\<close>

lemma less_divmod_nat:
  fixes x y k :: nat
  assumes "0 < k"
  shows "x < y \<longleftrightarrow> x div k < y div k \<or> (x div k = y div k \<and> x mod k < y mod k)"
proof -
  have x: "x = k * (x div k) + x mod k" and y: "y = k * (y div k) + y mod k" by simp_all
  have mx: "x mod k < k" and my: "y mod k < k" using assms by simp_all
  show ?thesis
  proof (cases "x div k" "y div k" rule: linorder_cases)
    case less
    then have "Suc (x div k) \<le> y div k" by simp
    then have "k * Suc (x div k) \<le> k * (y div k)" by (rule mult_le_mono2)
    then have "k * (x div k) + k \<le> k * (y div k)" by simp
    with mx x y have "x < y" by linarith
    with less show ?thesis by simp
  next
    case equal
    with y have "y = k * (x div k) + y mod k" by simp
    with x have "x < y \<longleftrightarrow> x mod k < y mod k" by linarith
    with equal show ?thesis by simp
  next
    case greater
    then have "Suc (y div k) \<le> x div k" by simp
    then have "k * Suc (y div k) \<le> k * (x div k)" by (rule mult_le_mono2)
    then have "k * (y div k) + k \<le> k * (x div k)" by simp
    with my x y have "y < x" by linarith
    with greater show ?thesis by simp
  qed
qed

lemma dig_less_iff: "i < 10 \<Longrightarrow> j < 10 \<Longrightarrow> (dig i < dig j) = (i < j)"
proof -
  assume "i < 10" "j < 10"
  then have "i \<in> {0,1,2,3,4,5,6,7,8,9}" "j \<in> {0,1,2,3,4,5,6,7,8,9}" by auto
  then show ?thesis by (auto simp: dig_def)
qed

lemma dig_eq_iff: "i < 10 \<Longrightarrow> j < 10 \<Longrightarrow> (dig i = dig j) = (i = j)"
proof -
  assume "i < 10" "j < 10"
  then have "i \<in> {0,1,2,3,4,5,6,7,8,9}" "j \<in> {0,1,2,3,4,5,6,7,8,9}" by auto
  then show ?thesis by (auto simp: dig_def)
qed

lemma mod_mult_div:
  fixes x n q :: nat
  assumes "0 < n"
  shows "x mod (n * q) div n = x div n mod q" and "x mod (n * q) mod n = x mod n"
  using assms mod_mult2_eq by auto

lemma less_mod_mult:
  fixes x y n q :: nat
  assumes "0 < n"
  shows "(x mod (n * q) < y mod (n * q))
     = (x div n mod q < y div n mod q \<or> (x div n mod q = y div n mod q \<and> x mod n < y mod n))"
  using less_divmod_nat [OF assms, of "x mod (n * q)" "y mod (n * q)"]
  by (simp add: mod_mult_div [OF assms])

lemma eq_mod_mult:
  fixes x y n q :: nat
  assumes "0 < n"
  shows "(x mod (n * q) = y mod (n * q))
     = (x div n mod q = y div n mod q \<and> x mod n = y mod n)"
proof -
  have "x mod (n * q) = n * (x div n mod q) + x mod n" "y mod (n * q) = n * (y div n mod q) + y mod n"
    by (simp_all add: mod_mult2_eq)
  then show ?thesis
    by (metis mod_mult_div(1) mod_mult_div(2) assms)
qed

lemma pad2_less_mod:
  "(pad2 x @ s < pad2 y @ t) = (x mod 100 < y mod 100 \<or> x mod 100 = y mod 100 \<and> s < t)"
  using less_mod_mult [of 10 x 10 y] eq_mod_mult [of 10 x 10 y]
  by (simp add: pad2_def dig_less_iff dig_eq_iff) blast

lemma pad3_less_mod:
  "(pad3 x @ s < pad3 y @ t) = (x mod 1000 < y mod 1000 \<or> x mod 1000 = y mod 1000 \<and> s < t)"
proof -
  have p: "pad3 x @ s = dig (x div 100 mod 10) # pad2 x @ s"
    "pad3 y @ t = dig (y div 100 mod 10) # pad2 y @ t"
    by (simp_all add: pad3_def pad2_def)
  show ?thesis
    unfolding p
    using less_mod_mult [of 100 x 10 y] eq_mod_mult [of 100 x 10 y]
    by (simp add: dig_less_iff dig_eq_iff pad2_less_mod) blast
qed

lemma pad4_less_mod:
  "(pad4 x @ s < pad4 y @ t) = (x mod 10000 < y mod 10000 \<or> x mod 10000 = y mod 10000 \<and> s < t)"
proof -
  have p: "pad4 x @ s = dig (x div 1000 mod 10) # pad3 x @ s"
    "pad4 y @ t = dig (y div 1000 mod 10) # pad3 y @ t"
    by (simp_all add: pad4_def pad3_def)
  show ?thesis
    unfolding p
    using less_mod_mult [of 1000 x 10 y] eq_mod_mult [of 1000 x 10 y]
    by (simp add: dig_less_iff dig_eq_iff pad3_less_mod) blast
qed


lemma less_time_of_day_nat:
  fixes a b :: nat
  shows "a < b \<longleftrightarrow>
     a div 3600000 < b div 3600000 \<or> a div 3600000 = b div 3600000 \<and>
       (a div 60000 mod 60 < b div 60000 mod 60 \<or> a div 60000 mod 60 = b div 60000 mod 60 \<and>
         (a div 1000 mod 60 < b div 1000 mod 60 \<or> a div 1000 mod 60 = b div 1000 mod 60 \<and>
            a mod 1000 < b mod 1000))"
  using less_divmod_nat [of 3600000 a b] less_mod_mult [of 60000 a 60 b]
    less_mod_mult [of 1000 a 60 b]
  by simp

lemma time_of_day_less:
  assumes "a < 86400000" "b < 86400000"
  shows "(time_of_day a < time_of_day b) = (a < b)"
proof -
  have h: "a div 3600000 mod 100 = a div 3600000" "b div 3600000 mod 100 = b div 3600000"
    using assms by simp_all
  have m: "a div 60000 mod 60 mod 100 = a div 60000 mod 60"
    "b div 60000 mod 60 mod 100 = b div 60000 mod 60"
    "a div 1000 mod 60 mod 100 = a div 1000 mod 60"
    "b div 1000 mod 60 mod 100 = b div 1000 mod 60"
    by simp_all
  show ?thesis
    unfolding time_of_day_def
    by (simp add: pad2_less_mod pad3_less_mod h m less_time_of_day_nat [of a b])
qed


lemma less_divmod_int:
  fixes x y k :: int
  assumes "0 < k"
  shows "x < y \<longleftrightarrow> x div k < y div k \<or> (x div k = y div k \<and> x mod k < y mod k)"
proof -
  have x: "x = k * (x div k) + x mod k" and y: "y = k * (y div k) + y mod k" by simp_all
  have mx: "x mod k < k" "0 \<le> x mod k" and my: "y mod k < k" "0 \<le> y mod k"
    using assms by simp_all
  show ?thesis
  proof (cases "x div k" "y div k" rule: linorder_cases)
    case less
    then have "x div k + 1 \<le> y div k" by simp
    then have "k * (x div k + 1) \<le> k * (y div k)" using assms by (simp add: mult_left_mono)
    then have "k * (x div k) + k \<le> k * (y div k)" by (simp add: algebra_simps)
    with mx my x y have "x < y" by linarith
    with less show ?thesis by simp
  next
    case equal
    with y have "y = k * (x div k) + y mod k" by simp
    with x have "x < y \<longleftrightarrow> x mod k < y mod k" by linarith
    with equal show ?thesis by simp
  next
    case greater
    then have "y div k + 1 \<le> x div k" by simp
    then have "k * (y div k + 1) \<le> k * (x div k)" using assms by (simp add: mult_left_mono)
    then have "k * (y div k) + k \<le> k * (x div k)" by (simp add: algebra_simps)
    with mx my x y have "y < x" by linarith
    with greater show ?thesis by simp
  qed
qed

lemma year_of_day_fst_ge: "y \<le> fst (year_of_day y d)"
proof (induction y d rule: year_of_day.induct)
  case (1 y d)
  show ?case
  proof (cases "d < DaysInYear y")
    case True
    then show ?thesis by (simp add: year_of_day.simps [of y d])
  next
    case False
    with 1 have "y + 1 \<le> fst (year_of_day (y + 1) (d - DaysInYear y))" by simp
    with False show ?thesis by (simp add: year_of_day.simps [of y d])
  qed
qed

lemma year_of_day_snd: "0 \<le> d \<Longrightarrow>
   0 \<le> snd (year_of_day y d) \<and> snd (year_of_day y d) < DaysInYear (fst (year_of_day y d))"
proof (induction y d rule: year_of_day.induct)
  case (1 y d)
  show ?case
  proof (cases "d < DaysInYear y")
    case True
    with "1.prems" show ?thesis by (simp add: year_of_day.simps [of y d])
  next
    case False
    then have "0 \<le> d - DaysInYear y" by simp
    with 1 False show ?thesis by (simp add: year_of_day.simps [of y d])
  qed
qed

lemma year_of_day_mono:
  "d1 < d2 \<Longrightarrow>
     fst (year_of_day y d1) < fst (year_of_day y d2)
     \<or> (fst (year_of_day y d1) = fst (year_of_day y d2)
        \<and> snd (year_of_day y d1) < snd (year_of_day y d2))"
proof (induction y d2 arbitrary: d1 rule: year_of_day.induct)
  case (1 y d2)
  show ?case
  proof (cases "d2 < DaysInYear y")
    case True
    with "1.prems" have "d1 < DaysInYear y" by simp
    with True "1.prems" show ?thesis
      by (simp add: year_of_day.simps [of y d2] year_of_day.simps [of y d1])
  next
    case False
    show ?thesis
    proof (cases "d1 < DaysInYear y")
      case True
      have "y + 1 \<le> fst (year_of_day (y + 1) (d2 - DaysInYear y))"
        by (rule year_of_day_fst_ge)
      with True False show ?thesis
        by (simp add: year_of_day.simps [of y d2] year_of_day.simps [of y d1])
    next
      case d1: False
      from "1.prems" have "d1 - DaysInYear y < d2 - DaysInYear y" by simp
      from "1.IH" [OF False this] d1 False show ?thesis
        by (simp add: year_of_day.simps [of y d2] year_of_day.simps [of y d1])
    qed
  qed
qed

lemma month_of_day_fst_ge: "m \<le> fst (month_of_day ls m d)"
proof (induction ls arbitrary: m d)
  case Nil
  then show ?case by simp
next
  case (Cons l ls)
  from Cons [of "Suc m" "d - l"] show ?case by auto
qed

lemma month_of_day_fst_le: "fst (month_of_day ls m d) \<le> m + length ls"
proof (induction ls arbitrary: m d)
  case Nil
  then show ?case by simp
next
  case (Cons l ls)
  from Cons [of "Suc m" "d - l"] show ?case by auto
qed

lemma month_of_day_snd:
  "0 \<le> d \<Longrightarrow> d < sum_list ls \<Longrightarrow> \<forall>l \<in> set ls. l \<le> 31 \<Longrightarrow>
     0 \<le> snd (month_of_day ls m d) \<and> snd (month_of_day ls m d) < 31"
proof (induction ls arbitrary: m d)
  case Nil
  then show ?case by simp
next
  case (Cons l ls)
  show ?case
  proof (cases "d < l")
    case True
    with Cons.prems show ?thesis by simp
  next
    case False
    with Cons.prems have "0 \<le> d - l" "d - l < sum_list ls" "\<forall>l \<in> set ls. l \<le> 31" by simp_all
    from Cons.IH [OF this] False show ?thesis by simp
  qed
qed

lemma month_of_day_mono:
  "d1 < d2 \<Longrightarrow>
     fst (month_of_day ls m d1) < fst (month_of_day ls m d2)
     \<or> (fst (month_of_day ls m d1) = fst (month_of_day ls m d2)
        \<and> snd (month_of_day ls m d1) < snd (month_of_day ls m d2))"
proof (induction ls arbitrary: m d1 d2)
  case Nil
  then show ?case by simp
next
  case (Cons l ls)
  show ?case
  proof (cases "d2 < l")
    case True
    with Cons.prems show ?thesis by simp
  next
    case False
    show ?thesis
    proof (cases "d1 < l")
      case True
      have "Suc m \<le> fst (month_of_day ls (Suc m) (d2 - l))" by (rule month_of_day_fst_ge)
      with True False show ?thesis by simp
    next
      case d1: False
      from Cons.prems have "d1 - l < d2 - l" by simp
      from Cons.IH [OF this, of "Suc m"] d1 False show ?thesis by simp
    qed
  qed
qed

lemma sum_month_lengths: "sum_list (month_lengths y) = DaysInYear y"
  by (simp add: month_lengths_def DaysInYear_def)

lemma month_lengths_le: "\<forall>l \<in> set (month_lengths y). l \<le> 31"
  by (simp add: month_lengths_def)


lemma div_succ:
  fixes n k :: int
  assumes "0 < k"
  shows "(n + 1) div k = n div k + (if (n + 1) mod k = 0 then 1 else 0)"
proof -
  define q where "q = (n + 1) div k"
  define r where "r = (n + 1) mod k"
  have eq: "n + 1 = k * q + r" by (simp add: q_def r_def)
  have r: "0 \<le> r" "r < k" using assms by (simp_all add: r_def)
  have k: "k \<noteq> 0" using assms by simp
  show ?thesis
  proof (cases "r = 0")
    case True
    with eq have "n = (k - 1) + k * (q - 1)" by (simp add: algebra_simps)
    then have "n div k = (k - 1) div k + (q - 1)"
      using div_mult_self2 [OF k, of "k - 1" "q - 1"] by (simp add: add.commute)
    moreover have "(k - 1) div k = 0" using assms by (simp add: div_pos_pos_trivial)
    ultimately have "n div k = q - 1" by simp
    with True show ?thesis by (simp add: q_def r_def)
  next
    case False
    with r have r': "0 \<le> r - 1" "r - 1 < k" by simp_all
    from eq have "n = (r - 1) + k * q" by (simp add: algebra_simps)
    then have "n div k = (r - 1) div k + q"
      using div_mult_self2 [OF k, of "r - 1" q] by (simp add: add.commute)
    moreover have "(r - 1) div k = 0" using r' by (simp add: div_pos_pos_trivial)
    ultimately have "n div k = q" by simp
    with False show ?thesis by (simp add: q_def r_def)
  qed
qed

lemma mod_shift:
  fixes y :: int
  shows "(y - 1968) mod 4 = y mod 4" "(y - 1900) mod 100 = y mod 100" "(y - 1600) mod 400 = y mod 400"
proof -
  have "(y + (-492) * 4) mod 4 = y mod 4" by (rule mod_mult_self1)
  then show "(y - 1968) mod 4 = y mod 4" by simp
  have "(y + (-19) * 100) mod 100 = y mod 100" by (rule mod_mult_self1)
  then show "(y - 1900) mod 100 = y mod 100" by simp
  have "(y + (-4) * 400) mod 400 = y mod 400" by (rule mod_mult_self1)
  then show "(y - 1600) mod 400 = y mod 400" by simp
qed


lemma mod_400_imp:
  fixes y :: int
  shows "y mod 400 = 0 \<Longrightarrow> y mod 100 = 0" "y mod 100 = 0 \<Longrightarrow> y mod 4 = 0"
proof -
  assume "y mod 400 = 0"
  then have "400 dvd y" by (simp add: mod_eq_0_iff_dvd)
  moreover have "(100::int) dvd 400" by simp
  ultimately have "100 dvd y" by (rule dvd_trans [rotated])
  then show "y mod 100 = 0" by (simp add: mod_eq_0_iff_dvd)
next
  assume "y mod 100 = 0"
  then have "100 dvd y" by (simp add: mod_eq_0_iff_dvd)
  moreover have "(4::int) dvd 100" by simp
  ultimately have "4 dvd y" by (rule dvd_trans [rotated])
  then show "y mod 4 = 0" by (simp add: mod_eq_0_iff_dvd)
qed


lemma leap_div_steps:
  fixes y :: int
  shows "(y + 1 - 1969) div 4 = (y - 1969) div 4 + (if y mod 4 = 0 then 1 else 0)"
    and "(y + 1 - 1901) div 100 = (y - 1901) div 100 + (if y mod 100 = 0 then 1 else 0)"
    and "(y + 1 - 1601) div 400 = (y - 1601) div 400 + (if y mod 400 = 0 then 1 else 0)"
proof -
  have e: "y + 1 - 1969 = (y - 1969) + 1" "y + 1 - 1901 = (y - 1901) + 1"
    "y + 1 - 1601 = (y - 1601) + 1" by simp_all
  have m: "(y - 1969 + 1) mod 4 = y mod 4" "(y - 1901 + 1) mod 100 = y mod 100"
    "(y - 1601 + 1) mod 400 = y mod 400"
    using mod_shift [of y] by simp_all
  have "(y - 1969 + 1) div 4 = (y - 1969) div 4 + (if (y - 1969 + 1) mod 4 = 0 then 1 else 0)"
    by (rule div_succ) simp
  then show "(y + 1 - 1969) div 4 = (y - 1969) div 4 + (if y mod 4 = 0 then 1 else 0)"
    by (simp only: e(1) m(1))
  have "(y - 1901 + 1) div 100 = (y - 1901) div 100 + (if (y - 1901 + 1) mod 100 = 0 then 1 else 0)"
    by (rule div_succ) simp
  then show "(y + 1 - 1901) div 100 = (y - 1901) div 100 + (if y mod 100 = 0 then 1 else 0)"
    by (simp only: e(2) m(2))
  have "(y - 1601 + 1) div 400 = (y - 1601) div 400 + (if (y - 1601 + 1) mod 400 = 0 then 1 else 0)"
    by (rule div_succ) simp
  then show "(y + 1 - 1601) div 400 = (y - 1601) div 400 + (if y mod 400 = 0 then 1 else 0)"
    by (simp only: e(3) m(3))
qed

lemma DayFromYear_step: "DayFromYear (y + 1) = DayFromYear y + DaysInYear y"
proof -
  note l = mod_400_imp [of y]
  show ?thesis
  proof (cases "y mod 4 = 0")
    case False
    with l have "y mod 100 \<noteq> 0" "y mod 400 \<noteq> 0" by auto
    with False show ?thesis
      unfolding DayFromYear_def DaysInYear_def InLeapYear_def leap_div_steps by simp
  next
    case True
    show ?thesis
    proof (cases "y mod 100 = 0")
      case False
      with l have "y mod 400 \<noteq> 0" by auto
      with True False show ?thesis
        unfolding DayFromYear_def DaysInYear_def InLeapYear_def leap_div_steps by simp
    next
      case h: True
      show ?thesis
      proof (cases "y mod 400 = 0")
        case True
        with h \<open>y mod 4 = 0\<close> show ?thesis
          unfolding DayFromYear_def DaysInYear_def InLeapYear_def leap_div_steps by simp
      next
        case False
        with h \<open>y mod 4 = 0\<close> show ?thesis
          unfolding DayFromYear_def DaysInYear_def InLeapYear_def leap_div_steps by simp
      qed
    qed
  qed
qed



lemma year_of_day_day: "DayFromYear (fst (year_of_day y d)) + snd (year_of_day y d) = DayFromYear y + d"
proof (induction y d rule: year_of_day.induct)
  case (1 y d)
  show ?case
  proof (cases "d < DaysInYear y")
    case True
    then show ?thesis by (simp add: year_of_day.simps [of y d])
  next
    case False
    from "1.IH" [OF False] False show ?thesis
      by (simp add: year_of_day.simps [of y d] DayFromYear_step)
  qed
qed

lemma DayFromYear_mono: "y \<le> y' \<Longrightarrow> DayFromYear y \<le> DayFromYear y'"
proof (induction y' rule: int_ge_induct)
  case base
  then show ?case by simp
next
  case (step i)
  have "0 \<le> DaysInYear i" by (simp add: DaysInYear_def)
  with step show ?case by (simp add: DayFromYear_step)
qed

lemma year_of_day_bound:
  assumes "0 \<le> d" "d < 2932897"
  shows "1970 \<le> fst (year_of_day 1970 d)" "fst (year_of_day 1970 d) < 10000"
proof -
  show "1970 \<le> fst (year_of_day 1970 d)" by (rule year_of_day_fst_ge)
  show "fst (year_of_day 1970 d) < 10000"
  proof (rule ccontr)
    assume "\<not> fst (year_of_day 1970 d) < 10000"
    then have "DayFromYear 10000 \<le> DayFromYear (fst (year_of_day 1970 d))"
      by (intro DayFromYear_mono) simp
    moreover have "DayFromYear 10000 = 2932897" "DayFromYear 1970 = 0"
      by (simp_all add: DayFromYear_def)
    moreover have "0 \<le> snd (year_of_day 1970 d)"
      using year_of_day_snd [OF assms(1), of 1970] by simp
    ultimately show False
      using year_of_day_day [of 1970 d] assms(2) by simp
  qed
qed

lemma date_string_less:
  assumes "Y < 10000" "Y' < 10000" "M < 100" "M' < 100" "D < 100" "D' < 100"
  shows "(pad4 Y @ ''-'' @ pad2 M @ ''-'' @ pad2 D @ ''T'' @ s
            < pad4 Y' @ ''-'' @ pad2 M' @ ''-'' @ pad2 D' @ ''T'' @ s')
     = (Y < Y' \<or> Y = Y' \<and> (M < M' \<or> M = M' \<and> (D < D' \<or> D = D' \<and> s < s')))"
  using assms by (simp add: pad4_less_mod pad2_less_mod)


lemma isoFormat_fields:
  assumes "0 \<le> t" "t < 253402300800000"
  defines "y \<equiv> fst (year_of_day 1970 (t div 86400000))"
    and "doy \<equiv> snd (year_of_day 1970 (t div 86400000))"
  defines "m \<equiv> fst (month_of_day (month_lengths y) 0 doy)"
    and "d \<equiv> snd (month_of_day (month_lengths y) 0 doy)"
  shows "isoFormat t = pad4 (nat y) @ ''-'' @ pad2 (m + 1) @ ''-'' @ pad2 (nat d + 1) @ ''T''
           @ time_of_day (nat (t mod 86400000))"
    and "nat y < 10000" and "m + 1 < 100" and "nat d + 1 < 100" and "0 \<le> y" and "0 \<le> d"
    and "0 \<le> doy" and "nat (t mod 86400000) < 86400000"
proof -
  show "isoFormat t = pad4 (nat y) @ ''-'' @ pad2 (m + 1) @ ''-'' @ pad2 (nat d + 1) @ ''T''
           @ time_of_day (nat (t mod 86400000))"
    by (simp add: isoFormat_def y_def doy_def m_def d_def split_beta)
  have day: "0 \<le> t div 86400000" "t div 86400000 < 2932897"
    using assms(1,2) by linarith+
  from year_of_day_bound [OF day] show y: "nat y < 10000" "0 \<le> y" by (simp_all add: y_def)
  from year_of_day_snd [OF day(1), of 1970]
  have doy: "0 \<le> doy" "doy < DaysInYear y" by (simp_all add: doy_def y_def)
  then show "0 \<le> doy" by simp
  have "m \<le> 0 + length (month_lengths y)" unfolding m_def by (rule month_of_day_fst_le)
  then show "m + 1 < 100" by (simp add: month_lengths_def)
  from month_of_day_snd [OF doy(1) _ month_lengths_le, of y 0] doy(2)
  have "0 \<le> d \<and> d < 31" by (simp add: d_def sum_month_lengths)
  then show "nat d + 1 < 100" "0 \<le> d" by linarith+
  show "nat (t mod 86400000) < 86400000" by simp
qed

lemma isoFormat_strict_mono:
  assumes a: "0 \<le> a" "a < 253402300800000" and b: "0 \<le> b" "b < 253402300800000"
    and less: "a < b"
  shows "isoFormat a < isoFormat b"
proof -
  let ?ya = "fst (year_of_day 1970 (a div 86400000))"
  let ?ra = "snd (year_of_day 1970 (a div 86400000))"
  let ?yb = "fst (year_of_day 1970 (b div 86400000))"
  let ?rb = "snd (year_of_day 1970 (b div 86400000))"
  let ?ma = "fst (month_of_day (month_lengths ?ya) 0 ?ra)"
  let ?da = "snd (month_of_day (month_lengths ?ya) 0 ?ra)"
  let ?mb = "fst (month_of_day (month_lengths ?yb) 0 ?rb)"
  let ?db = "snd (month_of_day (month_lengths ?yb) 0 ?rb)"
  note fa = isoFormat_fields [OF a] and fb = isoFormat_fields [OF b]
  have str: "(isoFormat a < isoFormat b)
     = (nat ?ya < nat ?yb \<or> nat ?ya = nat ?yb \<and>
         (?ma + 1 < ?mb + 1 \<or> ?ma + 1 = ?mb + 1 \<and>
           (nat ?da + 1 < nat ?db + 1 \<or> nat ?da + 1 = nat ?db + 1 \<and>
              nat (a mod 86400000) < nat (b mod 86400000))))"
    unfolding fa(1) fb(1)
    using date_string_less [OF fa(2) fb(2) fa(3) fb(3) fa(4) fb(4)]
      time_of_day_less [OF fa(8) fb(8)]
    by simp
  from less less_divmod_int [of 86400000 a b]
  consider (day) "a div 86400000 < b div 86400000"
    | (time) "a div 86400000 = b div 86400000" "a mod 86400000 < b mod 86400000"
    by auto
  then show ?thesis
  proof cases
    case time
    then have "nat (a mod 86400000) < nat (b mod 86400000)" by simp
    with time(1) show ?thesis unfolding str by simp
  next
    case day
    from year_of_day_mono [OF day, of 1970]
    consider (year) "?ya < ?yb" | (doy) "?ya = ?yb" "?ra < ?rb" by auto
    then show ?thesis
    proof cases
      case year
      with fa(5) fb(5) have "nat ?ya < nat ?yb" by simp
      then show ?thesis unfolding str by simp
    next
      case doy
      from month_of_day_mono [OF doy(2), of "month_lengths ?yb" 0] doy(1)
      consider (month) "?ma < ?mb" | (date) "?ma = ?mb" "?da < ?db" by auto
      then show ?thesis
      proof cases
        case month
        with doy(1) show ?thesis unfolding str by simp
      next
        case date
        with fa(6) fb(6) have "nat ?da < nat ?db" by simp
        with doy(1) date(1) show ?thesis unfolding str by simp
      qed
    qed
  qed
qed

lemma isoFormat_less_iff:
  assumes a: "0 \<le> a" "a < 253402300800000" and b: "0 \<le> b" "b < 253402300800000"
  shows "(isoFormat a < isoFormat b) = (a < b)"
proof
  assume "a < b"
  then show "isoFormat a < isoFormat b" by (rule isoFormat_strict_mono [OF a b])
next
  assume l: "isoFormat a < isoFormat b"
  show "a < b"
  proof (rule ccontr)
    assume "\<not> a < b"
    then consider "b < a" | "a = b" by fastforce
    then show False
    proof cases
      case 1
      from isoFormat_strict_mono [OF b a 1] l show False by simp
    next
      case 2
      with l show False by simp
    qed
  qed
qed

section \<open>The retention sweep\<close>

lemma cleanup_tables:
  assumes "\<bar>now - hoursOld * 60 * 60 * 1000\<bar> \<le> 8640000000000000"
  shows "idempotency_keys (db (snd (cleanupExpiredIdempotencyKeys js now io hoursOld w)))
      = filter (\<lambda>r. \<not> key_created_at r < Date_toISOString js (now - hoursOld * 60 * 60 * 1000))
          (idempotency_keys (db w))"
  using assms by (simp add: cleanupExpiredIdempotencyKeys_def Let_def saveDatabase_def)

lemma cleanup_count:
  assumes "\<bar>now - hoursOld * 60 * 60 * 1000\<bar> \<le> 8640000000000000"
    and "io \<or> filter (\<lambda>r. key_created_at r < Date_toISOString js (now - hoursOld * 60 * 60 * 1000))
          (idempotency_keys (db w)) = []"
  shows "fst (cleanupExpiredIdempotencyKeys js now io hoursOld w)
      = Inr (length (filter (\<lambda>r. key_created_at r < Date_toISOString js (now - hoursOld * 60 * 60 * 1000))
          (idempotency_keys (db w))))"
  using assms by (auto simp: cleanupExpiredIdempotencyKeys_def Let_def saveDatabase_def)

text \<open>
  C6. \<open>cleanupExpiredIdempotencyKeys\<close> deletes the records whose \<open>created_at\<close> text is below
  the text that \<open>toISOString\<close> prints for now minus the window, and returns their number.
  Let the runtime print the instants from \<open>lo\<close> to \<open>hi\<close> in the order of the instants
  (\<open>toISOString\<close> does so where it prints the fixed-width form with a four-digit year;
  \<open>isoFormat_less_iff\<close> proves it of the model from 1970 to the end of 9999), let the cutoff
  be a valid time value of that range, and let every record carry the stamp that
  \<open>saveIdempotencyRecord\<close> wrote at its instant \<open>at r\<close> of that range. Then the records that
  remain are exactly those not created strictly before the cutoff, in their order: a record
  created at the cutoff or within the window survives. When the database file can be
  written, the result is the number of records removed.
\<close>

theorem cleanupExpiredIdempotencyKeys_strict:
  "(\<forall>a b. lo \<le> a \<and> a < hi \<and> lo \<le> b \<and> b < hi \<longrightarrow>
      (Date_toISOString js a < Date_toISOString js b) = (a < b)) \<longrightarrow>
   \<bar>now - hoursOld * 60 * 60 * 1000\<bar> \<le> 8640000000000000 \<longrightarrow>
   lo \<le> now - hoursOld * 60 * 60 * 1000 \<longrightarrow> now - hoursOld * 60 * 60 * 1000 < hi \<longrightarrow>
   (\<forall>r \<in> set (idempotency_keys (db w)).
      key_created_at r = Date_toISOString js (at r) \<and> lo \<le> at r \<and> at r < hi) \<longrightarrow>
     idempotency_keys (db (snd (cleanupExpiredIdempotencyKeys js now io hoursOld w)))
       = filter (\<lambda>r. \<not> at r < now - hoursOld * 60 * 60 * 1000) (idempotency_keys (db w))
     \<and> (io \<longrightarrow> fst (cleanupExpiredIdempotencyKeys js now io hoursOld w)
           = Inr (length (filter (\<lambda>r. at r < now - hoursOld * 60 * 60 * 1000)
                    (idempotency_keys (db w)))))"
proof (intro impI conjI)
  let ?c = "now - hoursOld * 60 * 60 * 1000"
  assume order: "\<forall>a b. lo \<le> a \<and> a < hi \<and> lo \<le> b \<and> b < hi \<longrightarrow>
      (Date_toISOString js a < Date_toISOString js b) = (a < b)"
    and range: "\<bar>?c\<bar> \<le> 8640000000000000"
    and c: "lo \<le> ?c" "?c < hi"
    and stamps: "\<forall>r \<in> set (idempotency_keys (db w)).
      key_created_at r = Date_toISOString js (at r) \<and> lo \<le> at r \<and> at r < hi"
  have iff: "(key_created_at r < Date_toISOString js ?c) = (at r < ?c)"
    if "r \<in> set (idempotency_keys (db w))" for r
    using stamps that order c by auto
  have a: "filter (\<lambda>r. key_created_at r < Date_toISOString js ?c) (idempotency_keys (db w))
      = filter (\<lambda>r. at r < ?c) (idempotency_keys (db w))"
    using iff by (intro filter_cong) auto
  have b: "filter (\<lambda>r. \<not> key_created_at r < Date_toISOString js ?c) (idempotency_keys (db w))
      = filter (\<lambda>r. \<not> at r < ?c) (idempotency_keys (db w))"
    using iff by (intro filter_cong) auto
  show "idempotency_keys (db (snd (cleanupExpiredIdempotencyKeys js now io hoursOld w)))
       = filter (\<lambda>r. \<not> at r < ?c) (idempotency_keys (db w))"
    using cleanup_tables [OF range] b by simp
  assume io
  then show "fst (cleanupExpiredIdempotencyKeys js now io hoursOld w)
           = Inr (length (filter (\<lambda>r. at r < ?c) (idempotency_keys (db w))))"
    using cleanup_count [OF range, of io js w] a by simp
qed

theorem cleanupExpiredIdempotencyKeys_strict_witness:
  "fst (cleanupExpiredIdempotencyKeys node 1893456000000 True 24 purge_world) = Inr 1
   \<and> map key (idempotency_keys (db (snd (cleanupExpiredIdempotencyKeys node 1893456000000 True 24
        purge_world)))) = [''k2'', ''k3'']"
proof -
  have order: "\<forall>a b. 0 \<le> a \<and> a < 253402300800000 \<and> 0 \<le> b \<and> b < 253402300800000 \<longrightarrow>
      (Date_toISOString node a < Date_toISOString node b) = (a < b)"
    by (simp add: node_def isoFormat_less_iff)
  have keys: "idempotency_keys (db purge_world) =
        [\<lparr>key = ''k1'', response_status = 201, response_body = ''{}'',
          key_created_at = isoFormat (1893456000000 - 24 * 3600000 - 1)\<rparr>,
         \<lparr>key = ''k2'', response_status = 201, response_body = ''{}'',
          key_created_at = isoFormat (1893456000000 - 24 * 3600000)\<rparr>,
         \<lparr>key = ''k3'', response_status = 201, response_body = ''{}'',
          key_created_at = isoFormat (1893456000000 - 23 * 3600000 - 59 * 60000)\<rparr>]"
    by (simp add: purge_world_def)
  have stamps: "\<forall>r \<in> set (idempotency_keys (db purge_world)).
      key_created_at r = Date_toISOString node (purge_at r) \<and> 0 \<le> purge_at r
      \<and> purge_at r < 253402300800000"
    unfolding keys by (simp add: purge_at_def node_def)
  have c: "\<bar>(1893456000000::int) - 24 * 60 * 60 * 1000\<bar> \<le> 8640000000000000"
    "0 \<le> (1893456000000::int) - 24 * 60 * 60 * 1000"
    "(1893456000000::int) - 24 * 60 * 60 * 1000 < 253402300800000" by simp_all
  from cleanupExpiredIdempotencyKeys_strict [where js = node and now = 1893456000000
      and hoursOld = 24 and w = purge_world and at = purge_at and io = True
      and lo = 0 and hi = 253402300800000] order c stamps
  have "idempotency_keys (db (snd (cleanupExpiredIdempotencyKeys node 1893456000000 True 24
          purge_world)))
       = filter (\<lambda>r. \<not> purge_at r < 1893456000000 - 24 * 60 * 60 * 1000)
           (idempotency_keys (db purge_world))"
    and "fst (cleanupExpiredIdempotencyKeys node 1893456000000 True 24 purge_world)
           = Inr (length (filter (\<lambda>r. purge_at r < 1893456000000 - 24 * 60 * 60 * 1000)
                    (idempotency_keys (db purge_world))))"
    by blast+
  then show ?thesis unfolding keys by (simp add: purge_at_def)
qed

end
